theory Spec2Isabelle
  imports Complex_Main
begin

section \<open>Python values, errors and dictionaries\<close>

text \<open>
  The module \<^verbatim>\<open>dmsky/priors.py\<close> is glue: it stores the values it is given, passes
  them to numerical routines and dispatches on a string. The values are dynamically
  typed, so they are one datatype. Numbers are idealised as reals (no NaN, no
  infinity); the module never computes with them itself, and where a library
  routine turns a number into a float the conversion is a parameter.
\<close>

datatype pyval =
    PyNone
  | PyNum real
  | PyStr string
  | PyList "pyval list"
  | PyDict "(string \<times> pyval) list"

datatype py_error =
    KeyError string
  | TypeError
  | NameError string
  | AttributeError string
  | ValueError
  | IOError
  | OtherError string

type_synonym 'a result = "py_error + 'a"

type_synonym dict = "(string \<times> pyval) list"

text \<open>Sequencing of calls that may raise: the first exception ends the evaluation.\<close>

definition bind :: "'a result \<Rightarrow> ('a \<Rightarrow> 'b result) \<Rightarrow> 'b result" where
  "bind r k = (case r of Inl e \<Rightarrow> Inl e | Inr v \<Rightarrow> k v)"

text \<open>\<^verbatim>\<open>d[k]\<close>, \<^verbatim>\<open>d.get(k, default)\<close> and \<^verbatim>\<open>d.pop(k, default)\<close> on a dictionary.\<close>

definition dict_getitem :: "dict \<Rightarrow> string \<Rightarrow> pyval result" where
  "dict_getitem d k = (case map_of d k of None \<Rightarrow> Inl (KeyError k) | Some v \<Rightarrow> Inr v)"

definition dict_get :: "dict \<Rightarrow> string \<Rightarrow> pyval \<Rightarrow> pyval" where
  "dict_get d k dflt = (case map_of d k of None \<Rightarrow> dflt | Some v \<Rightarrow> v)"

definition dict_pop :: "dict \<Rightarrow> string \<Rightarrow> pyval \<Rightarrow> pyval \<times> dict" where
  "dict_pop d k dflt = (dict_get d k dflt, filter (\<lambda>kv. fst kv \<noteq> k) d)"

text \<open>
  The same two reads on the object that \<^verbatim>\<open>tools.yaml_load\<close> returned, which need
  not be a dictionary: subscripting anything else with a string is a TypeError, and
  nothing else has a \<^verbatim>\<open>get\<close> method.
\<close>

definition py_getitem :: "pyval \<Rightarrow> string \<Rightarrow> pyval result" where
  "py_getitem v k = (case v of PyDict kvs \<Rightarrow> dict_getitem kvs k | _ \<Rightarrow> Inl TypeError)"

definition py_get :: "pyval \<Rightarrow> string \<Rightarrow> pyval \<Rightarrow> pyval result" where
  "py_get v k dflt =
     (case v of PyDict kvs \<Rightarrow> Inr (dict_get kvs k dflt) | _ \<Rightarrow> Inl (AttributeError ''get''))"

text \<open>\<^verbatim>\<open>r[0]\<close> on the value a call returned.\<close>

definition py_first :: "pyval \<Rightarrow> pyval result" where
  "py_first v =
     (case v of PyList (a # _) \<Rightarrow> Inr a | PyList [] \<Rightarrow> Inl (OtherError ''IndexError'')
      | _ \<Rightarrow> Inl TypeError)"

section \<open>The prior classes\<close>

text \<open>
  A function of the three arguments \<^verbatim>\<open>(x, mu, sigma)\<close>, as \<^verbatim>\<open>FunctionPrior\<close>
  stores it in \<^verbatim>\<open>_fn\<close> and \<^verbatim>\<open>_lnfn\<close>.
\<close>

type_synonym pyfun3 = "pyval \<Rightarrow> pyval \<Rightarrow> pyval \<Rightarrow> pyval result"

text \<open>
  The object \<^verbatim>\<open>scipy.interpolate.interp1d\<close> builds: the table it was given and its
  two settings for points outside the table.
\<close>

record interp1d_obj =
  ix :: pyval
  iy :: pyval
  ikind :: pyval
  bounds_error :: bool
  ifill_value :: pyval

text \<open>The attributes \<^verbatim>\<open>FileFuncPrior.__init__\<close> sets.\<close>

record file_func =
  filename :: pyval
  ff_mu :: pyval
  ff_sigma :: pyval
  ff_x :: pyval
  ff_y :: pyval
  ff_kind :: pyval
  ff_fill_value :: pyval
  interpfunc :: interp1d_obj

text \<open>
  One constructor for each class that \<^verbatim>\<open>create_prior_functor\<close> instantiates; the
  arguments are the attributes \<^verbatim>\<open>__init__\<close> sets, \<^verbatim>\<open>_funcname\<close> first where the
  class takes it as an argument. The base class \<^verbatim>\<open>PriorFunctor\<close> has no
  \<^verbatim>\<open>__call__\<close> and is only ever subclassed.
\<close>

datatype prior =
    FunctionPrior pyval pyval pyval pyfun3 "pyfun3 option"
  | LognormPrior pyval pyval
  | NormPrior pyval pyval
  | FileFuncPrior file_func

section \<open>What the module imports\<close>

text \<open>
  The numerical routines are not in \<^verbatim>\<open>priors.py\<close>: \<^verbatim>\<open>stat_funcs\<close> and
  \<^verbatim>\<open>tools\<close> are other modules of the package, the rest is numpy and scipy. They
  are parameters of the model, each a function that returns a value or raises.
  \<^verbatim>\<open>lgauss\<close> and \<^verbatim>\<open>lnlgauss\<close> take the keyword \<^verbatim>\<open>logpdf\<close>, \<open>None\<close> when
  the call leaves it out. \<^verbatim>\<open>call_global\<close> is the call of a module-level name with
  \<^verbatim>\<open>(self, a, b)\<close>. \<^verbatim>\<open>interp1d_check\<close> is the validation of the constructor of
  \<^verbatim>\<open>interp1d\<close> and \<^verbatim>\<open>interp1d_eval\<close> its evaluation wherever
  \<^verbatim>\<open>bounds_error\<close> and \<^verbatim>\<open>fill_value\<close> do not decide the result.
  \<^verbatim>\<open>float64\<close> is the conversion of a Python number to an element of a numpy
  array of floats: it rounds, and it raises for a number that has no such element.
\<close>

record env =
  gauss :: pyfun3
  lngauss :: pyfun3
  lgauss :: "pyval \<Rightarrow> pyval \<Rightarrow> pyval \<Rightarrow> bool option \<Rightarrow> pyval result"
  lnlgauss :: "pyval \<Rightarrow> pyval \<Rightarrow> pyval \<Rightarrow> bool option \<Rightarrow> pyval result"
  yaml_load :: "pyval \<Rightarrow> pyval result"
  np_log :: "pyval \<Rightarrow> pyval result"
  np_log10 :: "pyval \<Rightarrow> pyval result"
  np_logspace :: "pyval \<Rightarrow> pyval \<Rightarrow> nat \<Rightarrow> pyval result"
  np_inf :: pyval
  py_add :: "pyval \<Rightarrow> pyval \<Rightarrow> pyval result"
  py_sub :: "pyval \<Rightarrow> pyval \<Rightarrow> pyval result"
  py_mul :: "pyval \<Rightarrow> pyval \<Rightarrow> pyval result"
  py_max :: "pyval \<Rightarrow> pyval \<Rightarrow> pyval result"
  py_str :: "pyval \<Rightarrow> string"
  norm_pdf :: "pyval \<Rightarrow> pyval \<Rightarrow> pyval \<Rightarrow> pyval result"
  lognorm_pdf :: "pyval \<Rightarrow> pyval \<Rightarrow> pyval \<Rightarrow> pyval result"
  interp1d_check :: "pyval \<Rightarrow> pyval \<Rightarrow> pyval \<Rightarrow> pyval \<Rightarrow> py_error option"
  interp1d_eval :: "interp1d_obj \<Rightarrow> pyval \<Rightarrow> pyval result"
  call_global :: "string \<Rightarrow> prior \<Rightarrow> pyval \<Rightarrow> pyval \<Rightarrow> pyval result"
  float64 :: "real \<Rightarrow> real result"

text \<open>
  The names bound at module level in \<^verbatim>\<open>priors.py\<close>: its imports, classes and
  functions. A name that is neither here nor a builtin raises NameError when it is
  evaluated; \<^verbatim>\<open>quad\<close> is the only name the module reads that is not a builtin.
\<close>

definition module_globals :: "string list" where
  "module_globals =
     [''absolute_import'', ''division'', ''print_function'', ''np'', ''stats'',
      ''interp1d'', ''stat_funcs'', ''tools'', ''PriorFunctor'', ''FunctionPrior'',
      ''GaussPrior'', ''LGaussPrior'', ''LGaussLikePrior'', ''LGaussLogPrior'',
      ''LognormPrior'', ''NormPrior'', ''FileFuncPrior'', ''create_prior_functor'',
      ''factory'']"

definition lookup_global :: "string \<Rightarrow> string result" where
  "lookup_global name =
     (if name \<in> set module_globals then Inr name else Inl (NameError name))"

section \<open>The interpolating function\<close>

text \<open>
  \<^verbatim>\<open>interp1d(x, y, kind=..., bounds_error=..., fill_value=...)\<close>: the constructor
  validates its arguments and keeps them.
\<close>

definition interp1d ::
  "env \<Rightarrow> pyval \<Rightarrow> pyval \<Rightarrow> pyval \<Rightarrow> bool \<Rightarrow> pyval \<Rightarrow> interp1d_obj result" where
  "interp1d env x y kind be fv =
     (case interp1d_check env x y kind fv of
        Some e \<Rightarrow> Inl e
      | None \<Rightarrow> Inr \<lparr>ix = x, iy = y, ikind = kind, bounds_error = be, ifill_value = fv\<rparr>)"

fun nums :: "pyval list \<Rightarrow> real list option" where
  "nums [] = Some []"
| "nums (PyNum r # vs) = (case nums vs of None \<Rightarrow> None | Some rs \<Rightarrow> Some (r # rs))"
| "nums (_ # vs) = None"

fun as_floats :: "env \<Rightarrow> real list \<Rightarrow> real list result" where
  "as_floats env [] = Inr []"
| "as_floats env (r # rs) =
     bind (float64 env r) (\<lambda>a. bind (as_floats env rs) (\<lambda>bs. Inr (a # bs)))"

text \<open>
  Modelled from the spec: \<^verbatim>\<open>scipy.interpolate.interp1d\<close> is a library class and
  its \<^verbatim>\<open>__call__\<close> has no source under \<^verbatim>\<open>src/\<close>. The spec says that a point
  outside the range of \<^verbatim>\<open>x\<close> is given the configured fill value; the
  documentation of scipy adds that this holds with \<^verbatim>\<open>bounds_error\<close> unset (set,
  the call raises ValueError), and that table, point and fill value are arrays of
  floats. The model decides one case only: a table of numbers in \<^verbatim>\<open>x\<close> and in
  \<^verbatim>\<open>y\<close>, a point that is a number, and a fill value that is a number, all of
  them as \<^verbatim>\<open>float64\<close> converts them. There the point is compared with the least
  and the greatest converted \<^verbatim>\<open>x\<close>. Everything else is left to
  \<^verbatim>\<open>interp1d_eval\<close>: a point inside the table, an array of points, a number
  that does not convert, a table that is not a list of numbers, and a fill value
  that is not a number, such as \<^verbatim>\<open>'extrapolate'\<close> or a pair.
\<close>

definition interp1d_call :: "env \<Rightarrow> interp1d_obj \<Rightarrow> pyval \<Rightarrow> pyval result" where
  "interp1d_call env f x_new =
     (case (ix f, iy f, x_new, ifill_value f) of
        (PyList xs, PyList ys, PyNum t, PyNum c) \<Rightarrow>
          (case (nums xs, nums ys) of
             (Some rs, Some qs) \<Rightarrow>
               (case (as_floats env rs, float64 env t) of
                  (Inr fs, Inr t') \<Rightarrow>
                    if fs \<noteq> [] \<and> (t' < Min (set fs) \<or> Max (set fs) < t')
                    then (if bounds_error f then Inl ValueError
                          else bind (float64 env c) (\<lambda>c'. Inr (PyNum c')))
                    else interp1d_eval env f x_new
                | _ \<Rightarrow> interp1d_eval env f x_new)
           | _ \<Rightarrow> interp1d_eval env f x_new)
      | _ \<Rightarrow> interp1d_eval env f x_new)"

section \<open>Construction\<close>

text \<open>\<^verbatim>\<open>GaussPrior\<close>, \<^verbatim>\<open>LGaussPrior\<close>, \<^verbatim>\<open>LGaussLikePrior\<close>, \<^verbatim>\<open>LGaussLogPrior\<close>:
  subclasses of \<^verbatim>\<open>FunctionPrior\<close> that only fix the arguments of its constructor.\<close>

definition GaussPrior :: "env \<Rightarrow> pyval \<Rightarrow> pyval \<Rightarrow> prior" where
  "GaussPrior env mu sigma =
     FunctionPrior (PyStr ''gauss'') mu sigma (gauss env) (Some (lngauss env))"

definition LGaussPrior :: "env \<Rightarrow> pyval \<Rightarrow> pyval \<Rightarrow> prior" where
  "LGaussPrior env mu sigma =
     FunctionPrior (PyStr ''lgauss'') mu sigma
       (\<lambda>x y s. lgauss env x y s None) (Some (\<lambda>x y s. lnlgauss env x y s None))"

definition LGaussLikePrior :: "env \<Rightarrow> pyval \<Rightarrow> pyval \<Rightarrow> prior" where
  "LGaussLikePrior env mu sigma =
     FunctionPrior (PyStr ''lgauss_like'') mu sigma
       (\<lambda>x y s. lgauss env y x s None) (Some (\<lambda>x y s. lnlgauss env y x s None))"

definition LGaussLogPrior :: "env \<Rightarrow> pyval \<Rightarrow> pyval \<Rightarrow> prior" where
  "LGaussLogPrior env mu sigma =
     FunctionPrior (PyStr ''lgauss_log'') mu sigma
       (\<lambda>x y s. lgauss env x y s (Some True)) (Some (\<lambda>x y s. lnlgauss env x y s (Some True)))"

text \<open>
  \<^verbatim>\<open>FileFuncPrior.__init__(self, filename)\<close>: the file is loaded, four keys are
  read by subscript, two with a default, and the interpolating function is built
  with \<^verbatim>\<open>bounds_error=False\<close>.
\<close>

definition FileFuncPrior_init :: "env \<Rightarrow> pyval \<Rightarrow> prior result" where
  "FileFuncPrior_init env fname =
     bind (yaml_load env fname) (\<lambda>d.
     bind (py_getitem d ''mean'') (\<lambda>mu.
     bind (py_getitem d ''sigma'') (\<lambda>sigma.
     bind (py_getitem d ''x'') (\<lambda>x.
     bind (py_getitem d ''y'') (\<lambda>y.
     bind (py_get d ''kind'' (PyStr ''linear'')) (\<lambda>kind.
     bind (py_get d ''fill_value'' (PyNum 0)) (\<lambda>fv.
     bind (interp1d env x y kind False fv) (\<lambda>f.
       Inr (FileFuncPrior
              \<lparr>filename = fname, ff_mu = mu, ff_sigma = sigma, ff_x = x, ff_y = y,
               ff_kind = kind, ff_fill_value = fv, interpfunc = f\<rparr>)))))))))"

text \<open>
  \<^verbatim>\<open>NormPrior(**d)\<close> and \<^verbatim>\<open>LognormPrior(**d)\<close>: the keys of \<^verbatim>\<open>d\<close> become keyword
  arguments of \<^verbatim>\<open>__init__(self, mu, sigma)\<close>. Any other key and a missing
  \<^verbatim>\<open>mu\<close> or \<^verbatim>\<open>sigma\<close> are a TypeError of the call.
\<close>

definition kwargs_mu_sigma :: "dict \<Rightarrow> (pyval \<times> pyval) result" where
  "kwargs_mu_sigma d =
     (if list_ex (\<lambda>kv. fst kv \<noteq> ''mu'' \<and> fst kv \<noteq> ''sigma'') d then Inl TypeError
      else (case (map_of d ''mu'', map_of d ''sigma'') of
              (Some m, Some s) \<Rightarrow> Inr (m, s)
            | _ \<Rightarrow> Inl TypeError))"

text \<open>\<^verbatim>\<open>"%s" % v\<close>: a string is inserted as it is, another value through \<^verbatim>\<open>str\<close>.\<close>

definition percent_s :: "env \<Rightarrow> pyval \<Rightarrow> string" where
  "percent_s env v = (case v of PyStr s \<Rightarrow> s | _ \<Rightarrow> py_str env v)"

text \<open>
  \<^verbatim>\<open>create_prior_functor(d)\<close>. The dictionary is the caller's object and
  \<^verbatim>\<open>d.pop\<close> changes it, so the function returns the dictionary as it is after the
  call next to its result.
\<close>

definition create_prior_functor :: "env \<Rightarrow> dict \<Rightarrow> dict \<times> prior result" where
  "create_prior_functor env d0 =
     (let (functype, d) = dict_pop d0 ''functype'' (PyStr ''lgauss_like'') in
      (d,
       if functype = PyStr ''norm'' then
         bind (kwargs_mu_sigma d) (\<lambda>(m, s). Inr (NormPrior m s))
       else if functype = PyStr ''lognorm'' then
         bind (kwargs_mu_sigma d) (\<lambda>(m, s). Inr (LognormPrior m s))
       else if functype = PyStr ''gauss'' then
         bind (dict_getitem d ''mu'') (\<lambda>m.
         bind (dict_getitem d ''sigma'') (\<lambda>s.
           Inr (FunctionPrior functype m s (gauss env) (Some (lngauss env)))))
       else if functype = PyStr ''lgauss'' then
         bind (dict_getitem d ''mu'') (\<lambda>m.
         bind (dict_getitem d ''sigma'') (\<lambda>s.
           Inr (FunctionPrior functype m s
                  (\<lambda>x y s. lgauss env x y s None) (Some (\<lambda>x y s. lnlgauss env x y s None)))))
       else if functype \<in> set [PyStr ''lgauss_like'', PyStr ''lgauss_lik''] then
         bind (dict_getitem d ''mu'') (\<lambda>m.
         bind (dict_getitem d ''sigma'') (\<lambda>s.
           Inr (FunctionPrior functype m s
                  (\<lambda>x y s. lgauss env y x s None) (Some (\<lambda>x y s. lnlgauss env y x s None)))))
       else if functype = PyStr ''lgauss_log'' then
         bind (dict_getitem d ''mu'') (\<lambda>m.
         bind (dict_getitem d ''sigma'') (\<lambda>s.
           Inr (FunctionPrior functype m s
                  (\<lambda>x y s. lgauss env x y s (Some True))
                  (Some (\<lambda>x y s. lnlgauss env x y s (Some True))))))
       else if functype = PyStr ''interp'' then
         bind (dict_getitem d ''filename'') (\<lambda>fname. FileFuncPrior_init env fname)
       else
         Inl (KeyError (''Unrecognized prior_functor type '' @ percent_s env functype))))"

section \<open>The methods\<close>

fun funcname :: "prior \<Rightarrow> pyval" where
  "funcname (FunctionPrior n m s f l) = n"
| "funcname (LognormPrior m s) = PyStr ''lognorm''"
| "funcname (NormPrior m s) = PyStr ''norm''"
| "funcname (FileFuncPrior ff) = PyStr ''file''"

fun mean :: "prior \<Rightarrow> pyval" where
  "mean (FunctionPrior n m s f l) = m"
| "mean (LognormPrior m s) = m"
| "mean (NormPrior m s) = m"
| "mean (FileFuncPrior ff) = ff_mu ff"

fun sigma :: "prior \<Rightarrow> pyval" where
  "sigma (FunctionPrior n m s f l) = s"
| "sigma (LognormPrior m s) = s"
| "sigma (NormPrior m s) = s"
| "sigma (FileFuncPrior ff) = ff_sigma ff"

text \<open>
  \<^verbatim>\<open>__call__(self, x)\<close>: \<^verbatim>\<open>self._fn(x, self._mu, self._sigma)\<close>,
  \<^verbatim>\<open>stats.lognorm(self._sigma, scale=self._mu).pdf(x)\<close>,
  \<^verbatim>\<open>stats.norm(loc=self._mu, scale=self._sigma).pdf(x)\<close> and
  \<^verbatim>\<open>self._interpfunc(x)\<close>.
\<close>

fun call :: "env \<Rightarrow> prior \<Rightarrow> pyval \<Rightarrow> pyval result" where
  "call env (FunctionPrior n m s f l) x = f x m s"
| "call env (LognormPrior m s) x = lognorm_pdf env s m x"
| "call env (NormPrior m s) x = norm_pdf env m s x"
| "call env (FileFuncPrior ff) x = interp1d_call env (interpfunc ff) x"

text \<open>
  \<^verbatim>\<open>log_value(self, x)\<close>: \<^verbatim>\<open>FunctionPrior\<close> overrides the method of the base
  class, the other three classes inherit \<^verbatim>\<open>np.log(self.__call__(x))\<close>.
\<close>

fun log_value :: "env \<Rightarrow> prior \<Rightarrow> pyval \<Rightarrow> pyval result" where
  "log_value env (FunctionPrior n m s f l) x =
     (case l of None \<Rightarrow> bind (f x m s) (np_log env) | Some g \<Rightarrow> g x m s)"
| "log_value env (LognormPrior m s) x = bind (call env (LognormPrior m s) x) (np_log env)"
| "log_value env (NormPrior m s) x = bind (call env (NormPrior m s) x) (np_log env)"
| "log_value env (FileFuncPrior ff) x = bind (call env (FileFuncPrior ff) x) (np_log env)"

text \<open>\<^verbatim>\<open>normalization_range(self)\<close> returns the pair \<^verbatim>\<open>0, np.inf\<close>.\<close>

definition normalization_range :: "env \<Rightarrow> prior \<Rightarrow> pyval \<times> pyval" where
  "normalization_range env self = (PyNum 0, np_inf env)"

text \<open>
  \<^verbatim>\<open>normalization(self)\<close>: \<^verbatim>\<open>FunctionPrior\<close> evaluates
  \<^verbatim>\<open>quad(self, norm_r[0], norm_r[1])[0]\<close>, where \<^verbatim>\<open>quad\<close> is a global name; the
  other classes inherit \<^verbatim>\<open>return 1.\<close>
\<close>

fun normalization :: "env \<Rightarrow> prior \<Rightarrow> pyval result" where
  "normalization env (FunctionPrior n m s f l) =
     (let norm_r = normalization_range env (FunctionPrior n m s f l) in
      bind (lookup_global ''quad'') (\<lambda>q.
      bind (call_global env q (FunctionPrior n m s f l) (fst norm_r) (snd norm_r)) py_first))"
| "normalization env (LognormPrior m s) = Inr (PyNum 1)"
| "normalization env (NormPrior m s) = Inr (PyNum 1)"
| "normalization env (FileFuncPrior ff) = Inr (PyNum 1)"

text \<open>
  \<^verbatim>\<open>marginalization_bins(self)\<close> and \<^verbatim>\<open>profile_bins(self)\<close>, inherited by every
  class.
\<close>

definition marginalization_bins :: "env \<Rightarrow> prior \<Rightarrow> pyval result" where
  "marginalization_bins env self =
     bind (np_log10 env (mean self)) (\<lambda>log_mean.
     bind (py_add env (PyNum (- 1)) log_mean) (\<lambda>lo.
     bind (py_add env (PyNum 1) log_mean) (\<lambda>hi.
       np_logspace env lo hi 1001)))"

definition profile_bins :: "env \<Rightarrow> prior \<Rightarrow> pyval result" where
  "profile_bins env self =
     bind (np_log10 env (mean self)) (\<lambda>log_mean.
     bind (py_mul env (PyNum 5) (sigma self)) (\<lambda>w.
     bind (py_max env w (PyNum 3)) (\<lambda>log_half_width.
     bind (py_sub env log_mean log_half_width) (\<lambda>lo.
     bind (py_add env log_mean log_half_width) (\<lambda>hi.
       np_logspace env lo hi 101)))))"

text \<open>The calls a client can make on an instance.\<close>

datatype prior_call =
    M_funcname
  | M_mean
  | M_sigma
  | M_normalization
  | M_normalization_range
  | M_marginalization_bins
  | M_profile_bins
  | M_log_value pyval
  | M_call pyval

section \<open>Instances as mutable objects\<close>

text \<open>
  The attributes of a Python object can be assigned to, and \<^verbatim>\<open>_fn\<close> and
  \<^verbatim>\<open>_lnfn\<close> of a \<^verbatim>\<open>FunctionPrior\<close> are whatever callables its constructor was
  given: a callable can hold a reference to the instance, or to any other object,
  and write to it. For what a call leaves unchanged the instance is therefore part
  of the program state: the attributes of the instance, one constructor for each
  class with everything its \<^verbatim>\<open>__init__\<close> sets (\<^verbatim>\<open>_funcname\<close> first), and
  whatever else a callable can reach. A stored callable is a reference into a table
  of functions from the state before the call to the state after it and the
  result.
\<close>

datatype prior_obj =
    IFunctionPrior pyval pyval pyval nat "nat option"
  | ILognormPrior pyval pyval pyval
  | INormPrior pyval pyval pyval
  | IFileFuncPrior pyval file_func

record world =
  this :: prior_obj
  elsewhere :: pyval

type_synonym callable = "pyval \<Rightarrow> pyval \<Rightarrow> pyval \<Rightarrow> world \<Rightarrow> world \<times> pyval result"

text \<open>
  The code an instance refers to and does not contain: the callables by reference,
  and the call of a module-level name with \<^verbatim>\<open>(self, a, b)\<close>.
\<close>

record program =
  callables :: "nat \<Rightarrow> callable"
  global_call :: "string \<Rightarrow> pyval \<Rightarrow> pyval \<Rightarrow> world \<Rightarrow> world \<times> pyval result"

text \<open>Sequencing in the state: an exception ends the evaluation in the state reached.\<close>

definition bind_w ::
  "(world \<Rightarrow> world \<times> 'a result) \<Rightarrow> ('a \<Rightarrow> world \<Rightarrow> world \<times> 'b result) \<Rightarrow>
   world \<Rightarrow> world \<times> 'b result" where
  "bind_w m k w = (case m w of (w', Inl e) \<Rightarrow> (w', Inl e) | (w', Inr v) \<Rightarrow> k v w')"

definition return_w :: "'a result \<Rightarrow> world \<Rightarrow> world \<times> 'a result" where
  "return_w r w = (w, r)"

text \<open>The reads \<^verbatim>\<open>self._funcname\<close>, \<^verbatim>\<open>self._mu\<close> and \<^verbatim>\<open>self._sigma\<close>.\<close>

fun attr_funcname :: "prior_obj \<Rightarrow> pyval" where
  "attr_funcname (IFunctionPrior n m s f l) = n"
| "attr_funcname (ILognormPrior n m s) = n"
| "attr_funcname (INormPrior n m s) = n"
| "attr_funcname (IFileFuncPrior n ff) = n"

fun attr_mu :: "prior_obj \<Rightarrow> pyval" where
  "attr_mu (IFunctionPrior n m s f l) = m"
| "attr_mu (ILognormPrior n m s) = m"
| "attr_mu (INormPrior n m s) = m"
| "attr_mu (IFileFuncPrior n ff) = ff_mu ff"

fun attr_sigma :: "prior_obj \<Rightarrow> pyval" where
  "attr_sigma (IFunctionPrior n m s f l) = s"
| "attr_sigma (ILognormPrior n m s) = s"
| "attr_sigma (INormPrior n m s) = s"
| "attr_sigma (IFileFuncPrior n ff) = ff_sigma ff"

text \<open>
  The methods, each as the source has it: a body reads attributes, calls a stored
  callable or a library routine, and assigns to nothing.
\<close>

definition funcname_m :: "world \<Rightarrow> world \<times> pyval result" where
  "funcname_m w = (w, Inr (attr_funcname (this w)))"

definition mean_m :: "world \<Rightarrow> world \<times> pyval result" where
  "mean_m w = (w, Inr (attr_mu (this w)))"

definition sigma_m :: "world \<Rightarrow> world \<times> pyval result" where
  "sigma_m w = (w, Inr (attr_sigma (this w)))"

definition call_m :: "program \<Rightarrow> env \<Rightarrow> pyval \<Rightarrow> world \<Rightarrow> world \<times> pyval result" where
  "call_m prog env x w =
     (case this w of
        IFunctionPrior n m s f l \<Rightarrow> callables prog f x m s w
      | ILognormPrior n m s \<Rightarrow> (w, lognorm_pdf env s m x)
      | INormPrior n m s \<Rightarrow> (w, norm_pdf env m s x)
      | IFileFuncPrior n ff \<Rightarrow> (w, interp1d_call env (interpfunc ff) x))"

definition log_value_m :: "program \<Rightarrow> env \<Rightarrow> pyval \<Rightarrow> world \<Rightarrow> world \<times> pyval result" where
  "log_value_m prog env x w =
     (case this w of
        IFunctionPrior n m s f l \<Rightarrow>
          (case l of
             None \<Rightarrow> bind_w (callables prog f x m s) (\<lambda>v. return_w (np_log env v)) w
           | Some g \<Rightarrow> callables prog g x m s w)
      | _ \<Rightarrow> bind_w (call_m prog env x) (\<lambda>v. return_w (np_log env v)) w)"

definition normalization_range_m :: "env \<Rightarrow> world \<Rightarrow> world \<times> (pyval \<times> pyval) result" where
  "normalization_range_m env w = (w, Inr (PyNum 0, np_inf env))"

definition normalization_m :: "program \<Rightarrow> env \<Rightarrow> world \<Rightarrow> world \<times> pyval result" where
  "normalization_m prog env w =
     (case this w of
        IFunctionPrior n m s f l \<Rightarrow>
          bind_w (normalization_range_m env) (\<lambda>norm_r.
          bind_w (return_w (lookup_global ''quad'')) (\<lambda>q.
          bind_w (global_call prog q (fst norm_r) (snd norm_r)) (\<lambda>r.
            return_w (py_first r)))) w
      | _ \<Rightarrow> (w, Inr (PyNum 1)))"

definition marginalization_bins_m :: "env \<Rightarrow> world \<Rightarrow> world \<times> pyval result" where
  "marginalization_bins_m env =
     bind_w mean_m (\<lambda>mu.
       return_w
         (bind (np_log10 env mu) (\<lambda>log_mean.
          bind (py_add env (PyNum (- 1)) log_mean) (\<lambda>lo.
          bind (py_add env (PyNum 1) log_mean) (\<lambda>hi.
            np_logspace env lo hi 1001)))))"

definition profile_bins_m :: "env \<Rightarrow> world \<Rightarrow> world \<times> pyval result" where
  "profile_bins_m env =
     bind_w mean_m (\<lambda>mu.
     bind_w (return_w (np_log10 env mu)) (\<lambda>log_mean.
     bind_w sigma_m (\<lambda>sg.
       return_w
         (bind (py_mul env (PyNum 5) sg) (\<lambda>w5.
          bind (py_max env w5 (PyNum 3)) (\<lambda>log_half_width.
          bind (py_sub env log_mean log_half_width) (\<lambda>lo.
          bind (py_add env log_mean log_half_width) (\<lambda>hi.
            np_logspace env lo hi 101))))))))"

text \<open>
  One call on the instance in the state, and a sequence of calls, each in the state
  the previous one left. The pair of \<^verbatim>\<open>normalization_range\<close> is returned as a
  sequence of two.
\<close>

fun invoke_m :: "program \<Rightarrow> env \<Rightarrow> prior_call \<Rightarrow> world \<Rightarrow> world \<times> pyval result" where
  "invoke_m prog env M_funcname w = funcname_m w"
| "invoke_m prog env M_mean w = mean_m w"
| "invoke_m prog env M_sigma w = sigma_m w"
| "invoke_m prog env M_normalization w = normalization_m prog env w"
| "invoke_m prog env M_normalization_range w =
     bind_w (normalization_range_m env) (\<lambda>r. return_w (Inr (PyList [fst r, snd r]))) w"
| "invoke_m prog env M_marginalization_bins w = marginalization_bins_m env w"
| "invoke_m prog env M_profile_bins w = profile_bins_m env w"
| "invoke_m prog env (M_log_value x) w = log_value_m prog env x w"
| "invoke_m prog env (M_call x) w = call_m prog env x w"

fun run_m :: "program \<Rightarrow> env \<Rightarrow> prior_call list \<Rightarrow> world \<Rightarrow> world \<times> pyval result list" where
  "run_m prog env [] w = (w, [])"
| "run_m prog env (c # cs) w =
     (let (w', r) = invoke_m prog env c w; (w'', rs) = run_m prog env cs w'
      in (w'', r # rs))"

text \<open>The callables an instance holds: \<^verbatim>\<open>_fn\<close>, and \<^verbatim>\<open>_lnfn\<close> unless it is None.\<close>

fun stored_callables :: "prior_obj \<Rightarrow> nat list" where
  "stored_callables (IFunctionPrior n m s f l) = f # (case l of None \<Rightarrow> [] | Some g \<Rightarrow> [g])"
| "stored_callables (ILognormPrior n m s) = []"
| "stored_callables (INormPrior n m s) = []"
| "stored_callables (IFileFuncPrior n ff) = []"

text \<open>
  An instance whose callables are functions of their arguments, as a mutable
  object: \<^verbatim>\<open>_fn\<close> is callable 0 and \<^verbatim>\<open>_lnfn\<close> callable 1, and neither touches
  the state.
\<close>

definition lift :: "pyfun3 \<Rightarrow> callable" where
  "lift f x m s w = (w, f x m s)"

fun instance_of :: "prior \<Rightarrow> prior_obj" where
  "instance_of (FunctionPrior n m s f l) =
     IFunctionPrior n m s 0 (case l of None \<Rightarrow> None | Some g \<Rightarrow> Some 1)"
| "instance_of (LognormPrior m s) = ILognormPrior (PyStr ''lognorm'') m s"
| "instance_of (NormPrior m s) = INormPrior (PyStr ''norm'') m s"
| "instance_of (FileFuncPrior ff) = IFileFuncPrior (PyStr ''file'') ff"

fun stored_fn :: "prior \<Rightarrow> nat \<Rightarrow> callable" where
  "stored_fn (FunctionPrior n m s f l) i =
     (if i = 0 then lift f else (case l of None \<Rightarrow> lift f | Some g \<Rightarrow> lift g))"
| "stored_fn (LognormPrior m s) i = lift (\<lambda>x m s. Inl TypeError)"
| "stored_fn (NormPrior m s) i = lift (\<lambda>x m s. Inl TypeError)"
| "stored_fn (FileFuncPrior ff) i = lift (\<lambda>x m s. Inl TypeError)"

definition program_of :: "env \<Rightarrow> prior \<Rightarrow> program" where
  "program_of env p =
     \<lparr>callables = stored_fn p,
      global_call = (\<lambda>q a b w. (w, call_global env q p a b))\<rparr>"

definition world_of :: "prior \<Rightarrow> pyval \<Rightarrow> world" where
  "world_of p r = \<lparr>this = instance_of p, elsewhere = r\<rparr>"

section \<open>The branches of the factory\<close>

text \<open>
  The strings \<^verbatim>\<open>create_prior_functor\<close> compares \<^verbatim>\<open>functype\<close> with, in the order
  of its branches; \<^verbatim>\<open>lgauss_lik\<close> is accepted next to \<^verbatim>\<open>lgauss_like\<close>.
\<close>

definition recognized_types :: "string list" where
  "recognized_types =
     [''norm'', ''lognorm'', ''gauss'', ''lgauss'', ''lgauss_like'', ''lgauss_lik'',
      ''lgauss_log'', ''interp'']"

text \<open>
  The expressions of the branch for the type \<open>t\<close> that can raise, evaluated in
  the order of the source on the dictionary after the pop: the keyword call
  \<^verbatim>\<open>NormPrior(**d)\<close> or \<^verbatim>\<open>LognormPrior(**d)\<close>; \<^verbatim>\<open>d['filename']\<close> and then the
  constructor \<^verbatim>\<open>FileFuncPrior(d['filename'])\<close>; \<^verbatim>\<open>d['mu']\<close> and then
  \<^verbatim>\<open>d['sigma']\<close>. An error is raised by a callee of the branch when it is the
  error of the first of these expressions that raises.
\<close>

definition raised_by_callee :: "env \<Rightarrow> string \<Rightarrow> dict \<Rightarrow> py_error \<Rightarrow> bool" where
  "raised_by_callee env t d e =
     (if t \<in> set [''norm'', ''lognorm''] then kwargs_mu_sigma d = Inl e
      else if t = ''interp'' then
        (case dict_getitem d ''filename'' of
           Inl e' \<Rightarrow> e' = e
         | Inr f \<Rightarrow> FileFuncPrior_init env f = Inl e)
      else
        (case dict_getitem d ''mu'' of
           Inl e' \<Rightarrow> e' = e
         | Inr m \<Rightarrow> dict_getitem d ''sigma'' = Inl e))"

definition is_dict :: "pyval \<Rightarrow> bool" where
  "is_dict v = (case v of PyDict _ \<Rightarrow> True | _ \<Rightarrow> False)"

section \<open>The library routines as documented\<close>

text \<open>
  Modelled from the spec: \<^verbatim>\<open>scipy.stats.norm\<close> and \<^verbatim>\<open>scipy.stats.lognorm\<close> are
  library distributions with no source under \<^verbatim>\<open>src/\<close>. The spec calls them
  closed-form densities with a Gaussian peak at \<^verbatim>\<open>mu\<close>, and the docstring of
  \<^verbatim>\<open>LognormPrior\<close> gives the convention of \<^verbatim>\<open>lognorm(s, scale)\<close>: the density
  times \<open>x\<close> is the Gaussian of \<open>ln x\<close> with mean \<open>ln scale\<close> and standard
  deviation \<open>s\<close>. The densities are over the reals, without rounding.
\<close>

definition norm_density :: "real \<Rightarrow> real \<Rightarrow> real \<Rightarrow> real" where
  "norm_density loc scale x = exp (- ((x - loc) / scale)\<^sup>2 / 2) / (scale * sqrt (2 * pi))"

definition lognorm_density :: "real \<Rightarrow> real \<Rightarrow> real \<Rightarrow> real" where
  "lognorm_density s scale x =
     (if 0 < x then exp (- (ln (x / scale))\<^sup>2 / (2 * s\<^sup>2)) / (s * x * sqrt (2 * pi)) else 0)"

text \<open>
  Modelled from the spec: the evaluation of \<^verbatim>\<open>interp1d\<close> for \<^verbatim>\<open>kind='linear'\<close>
  has no source under \<^verbatim>\<open>src/\<close>. As scipy documents it, the value is on the
  straight line through the two neighbouring points of the table, and with
  \<^verbatim>\<open>fill_value='extrapolate'\<close> a point outside the table is on the line through
  the two points at that end. The table is a list of points with increasing
  \<open>x\<close>.
\<close>

definition on_line :: "real \<times> real \<Rightarrow> real \<times> real \<Rightarrow> real \<Rightarrow> real" where
  "on_line p q t = snd p + (t - fst p) * (snd q - snd p) / (fst q - fst p)"

fun linear_interp :: "(real \<times> real) list \<Rightarrow> real \<Rightarrow> real" where
  "linear_interp (p # q # ps) t =
     (if t \<le> fst q \<or> ps = [] then on_line p q t else linear_interp (q # ps) t)"
| "linear_interp ps t = 0"

section \<open>A concrete environment\<close>

text \<open>
  An environment for evaluating the definitions on concrete inputs. The two
  densities and the linear interpolation are the documented ones, on numbers;
  \<^verbatim>\<open>float64\<close> is exact, as it is on the small binary fractions used below; the
  other numerical routines are stand-ins that return their first argument. There
  are two files with a table of three points: \<^verbatim>\<open>prior.yaml\<close> has no \<^verbatim>\<open>kind\<close>
  and no \<^verbatim>\<open>fill_value\<close>, \<^verbatim>\<open>extrapolate.yaml\<close> has the fill value
  \<^verbatim>\<open>'extrapolate'\<close>.
\<close>

definition prior_yaml :: pyval where
  "prior_yaml =
     PyDict [(''mean'', PyNum 2), (''sigma'', PyNum 3),
             (''x'', PyList [PyNum 1, PyNum 2, PyNum 4]),
             (''y'', PyList [PyNum 10, PyNum 20, PyNum 40])]"

definition extrapolate_yaml :: pyval where
  "extrapolate_yaml =
     PyDict [(''mean'', PyNum 2), (''sigma'', PyNum 3),
             (''x'', PyList [PyNum 1, PyNum 2, PyNum 4]),
             (''y'', PyList [PyNum 10, PyNum 20, PyNum 40]),
             (''fill_value'', PyStr ''extrapolate'')]"

definition example_env :: env where
  "example_env =
     \<lparr>gauss = (\<lambda>x m s. Inr x),
      lngauss = (\<lambda>x m s. Inr x),
      lgauss = (\<lambda>x m s k. Inr x),
      lnlgauss = (\<lambda>x m s k. Inr x),
      yaml_load =
        (\<lambda>f. if f = PyStr ''prior.yaml'' then Inr prior_yaml
             else if f = PyStr ''extrapolate.yaml'' then Inr extrapolate_yaml
             else Inl IOError),
      np_log = (\<lambda>v. Inr v),
      np_log10 = (\<lambda>v. Inr v),
      np_logspace = (\<lambda>a b n. Inr (PyList [a, b])),
      np_inf = PyNone,
      py_add = (\<lambda>a b. Inr a),
      py_sub = (\<lambda>a b. Inr a),
      py_mul = (\<lambda>a b. Inr a),
      py_max = (\<lambda>a b. Inr a),
      py_str = (\<lambda>v. ''?''),
      norm_pdf =
        (\<lambda>m s x. case (m, s, x) of
                    (PyNum a, PyNum b, PyNum c) \<Rightarrow> Inr (PyNum (norm_density a b c))
                  | _ \<Rightarrow> Inl TypeError),
      lognorm_pdf =
        (\<lambda>s m x. case (s, m, x) of
                    (PyNum b, PyNum a, PyNum c) \<Rightarrow> Inr (PyNum (lognorm_density b a c))
                  | _ \<Rightarrow> Inl TypeError),
      interp1d_check = (\<lambda>x y k f. None),
      interp1d_eval =
        (\<lambda>f x. case (ix f, iy f, x) of
                  (PyList xs, PyList ys, PyNum t) \<Rightarrow>
                    (case (nums xs, nums ys) of
                       (Some a, Some b) \<Rightarrow> Inr (PyNum (linear_interp (zip a b) t))
                     | _ \<Rightarrow> Inl TypeError)
                | _ \<Rightarrow> Inl TypeError),
      call_global = (\<lambda>q self a b. Inr (PyList [a, b])),
      float64 = (\<lambda>r. Inr r)\<rparr>"

text \<open>
  The instances \<^verbatim>\<open>FileFuncPrior('prior.yaml')\<close> and
  \<^verbatim>\<open>FileFuncPrior('extrapolate.yaml')\<close> in that environment.
\<close>

definition prior_yaml_instance :: prior where
  "prior_yaml_instance =
     FileFuncPrior
       \<lparr>filename = PyStr ''prior.yaml'', ff_mu = PyNum 2, ff_sigma = PyNum 3,
        ff_x = PyList [PyNum 1, PyNum 2, PyNum 4],
        ff_y = PyList [PyNum 10, PyNum 20, PyNum 40],
        ff_kind = PyStr ''linear'', ff_fill_value = PyNum 0,
        interpfunc =
          \<lparr>ix = PyList [PyNum 1, PyNum 2, PyNum 4],
           iy = PyList [PyNum 10, PyNum 20, PyNum 40],
           ikind = PyStr ''linear'', bounds_error = False, ifill_value = PyNum 0\<rparr>\<rparr>"

definition extrapolate_yaml_instance :: prior where
  "extrapolate_yaml_instance =
     FileFuncPrior
       \<lparr>filename = PyStr ''extrapolate.yaml'', ff_mu = PyNum 2, ff_sigma = PyNum 3,
        ff_x = PyList [PyNum 1, PyNum 2, PyNum 4],
        ff_y = PyList [PyNum 10, PyNum 20, PyNum 40],
        ff_kind = PyStr ''linear'', ff_fill_value = PyStr ''extrapolate'',
        interpfunc =
          \<lparr>ix = PyList [PyNum 1, PyNum 2, PyNum 4],
           iy = PyList [PyNum 10, PyNum 20, PyNum 40],
           ikind = PyStr ''linear'', bounds_error = False,
           ifill_value = PyStr ''extrapolate''\<rparr>\<rparr>"

text \<open>
  Two programs for a \<^verbatim>\<open>FunctionPrior\<close> built by hand. In the first the stored
  callable is \<^verbatim>\<open>def fn(x, mu, sigma): p._mu = x; return mu\<close>, with \<open>p\<close> the
  instance that stores it; in the second it is \<^verbatim>\<open>def fn(x, mu, sigma): return x\<close>.
\<close>

definition overwriting_program :: program where
  "overwriting_program =
     \<lparr>callables =
        (\<lambda>i x m s w.
           (w\<lparr>this := (case this w of
                          IFunctionPrior n m' s' f l \<Rightarrow> IFunctionPrior n x s' f l
                        | ILognormPrior n m' s' \<Rightarrow> ILognormPrior n m' s'
                        | INormPrior n m' s' \<Rightarrow> INormPrior n m' s'
                        | IFileFuncPrior n ff \<Rightarrow> IFileFuncPrior n ff)\<rparr>,
            Inr m)),
      global_call = (\<lambda>q a b w. (w, Inr (PyList [a, b])))\<rparr>"

definition returning_program :: program where
  "returning_program =
     \<lparr>callables = (\<lambda>i x m s w. (w, Inr x)),
      global_call = (\<lambda>q a b w. (w, Inr (PyList [a, b])))\<rparr>"

definition example_world :: world where
  "example_world =
     \<lparr>this = IFunctionPrior (PyStr ''f'') (PyNum 1) (PyNum 1) 0 None, elsewhere = PyNone\<rparr>"

section \<open>Properties\<close>

lemma map_of_filter_key:
  "map_of (filter (\<lambda>kv. fst kv \<noteq> k) d) = (map_of d)(k := None)"
  by (induction d) (auto simp: fun_eq_iff)

lemma filter_absent_key:
  "map_of d k = None \<Longrightarrow> filter (\<lambda>kv. fst kv \<noteq> k) d = d"
  by (induction d) (auto split: if_splits)

text \<open>
  C10. For every \<^verbatim>\<open>FunctionPrior\<close> instance, \<^verbatim>\<open>normalization()\<close> raises NameError
  for the name \<^verbatim>\<open>quad\<close>, which the module neither imports nor defines: whatever the
  attributes of the instance and whatever the imported routines do, the method never
  returns a value.
\<close>

theorem FunctionPrior_normalization_NameError:
  "normalization env (FunctionPrior n m s f l) = Inl (NameError ''quad'')"
  by (simp add: lookup_global_def module_globals_def bind_def)

text \<open>
  C3. For every prior and every \<open>x\<close>: without a log-form (\<^verbatim>\<open>lnfn\<close> is None in a
  \<^verbatim>\<open>FunctionPrior\<close>, and always for \<^verbatim>\<open>LognormPrior\<close>, \<^verbatim>\<open>NormPrior\<close> and
  \<^verbatim>\<open>FileFuncPrior\<close>) \<^verbatim>\<open>log_value(x)\<close> is \<^verbatim>\<open>np.log\<close> applied to what
  \<^verbatim>\<open>__call__(x)\<close> returns, and it raises what \<^verbatim>\<open>__call__(x)\<close> raises; with a
  log-form it is \<^verbatim>\<open>lnfn(x, mu, sigma)\<close>, which for the four subclasses of
  \<^verbatim>\<open>FunctionPrior\<close> is the log-form routine of \<^verbatim>\<open>stat_funcs\<close> with the arguments
  in the order the subclass fixes.
\<close>

theorem log_value_is_log_of_call_or_lnfn:
  "log_value env (FunctionPrior n m s f None) x =
     bind (call env (FunctionPrior n m s f None) x) (np_log env)
   \<and> log_value env (LognormPrior m s) x = bind (call env (LognormPrior m s) x) (np_log env)
   \<and> log_value env (NormPrior m s) x = bind (call env (NormPrior m s) x) (np_log env)
   \<and> log_value env (FileFuncPrior ff) x = bind (call env (FileFuncPrior ff) x) (np_log env)
   \<and> log_value env (FunctionPrior n m s f (Some g)) x = g x m s
   \<and> log_value env (GaussPrior env m s) x = lngauss env x m s
   \<and> log_value env (LGaussPrior env m s) x = lnlgauss env x m s None
   \<and> log_value env (LGaussLikePrior env m s) x = lnlgauss env m x s None
   \<and> log_value env (LGaussLogPrior env m s) x = lnlgauss env x m s (Some True)"
  by (simp add: GaussPrior_def LGaussPrior_def LGaussLikePrior_def LGaussLogPrior_def)

text \<open>
  C9. After every call of \<^verbatim>\<open>create_prior_functor(d)\<close>, whether it returns or
  raises (the unrecognized-type error included), the caller's dictionary has no key
  \<^verbatim>\<open>functype\<close> and maps every other key as before.
\<close>

theorem create_prior_functor_pops_functype:
  "map_of (fst (create_prior_functor env d)) = (map_of d)(''functype'' := None)"
  by (simp add: create_prior_functor_def dict_pop_def map_of_filter_key)

text \<open>
  C8, as stated: for every dictionary without the key \<^verbatim>\<open>functype\<close> the factory does
  not raise. It fails on the empty dictionary: the type defaults to
  \<^verbatim>\<open>lgauss_like\<close>, and \<^verbatim>\<open>d['mu']\<close> raises KeyError.
\<close>

theorem no_functype_empty_dict_raises:
  "map_of [] ''functype'' = None
   \<and> snd (create_prior_functor example_env []) = Inl (KeyError ''mu'')"
  by (simp add: create_prior_functor_def dict_pop_def dict_get_def dict_getitem_def bind_def)

text \<open>
  C8, amended. For every dictionary that has no key \<^verbatim>\<open>functype\<close> and has the keys
  \<^verbatim>\<open>mu\<close> and \<^verbatim>\<open>sigma\<close>, the factory does not raise and leaves the dictionary as it
  is; the type defaults to \<^verbatim>\<open>lgauss_like\<close> and the result is the
  \<^verbatim>\<open>FunctionPrior\<close> named \<^verbatim>\<open>lgauss_like\<close> with \<^verbatim>\<open>d['mu']\<close>, \<^verbatim>\<open>d['sigma']\<close> and
  the log-space Gaussian and its log-form with the first two arguments exchanged.
\<close>

theorem no_functype_defaults_to_lgauss_like:
  assumes "map_of d ''functype'' = None"
    and "map_of d ''mu'' = Some m"
    and "map_of d ''sigma'' = Some s"
  shows "create_prior_functor env d =
           (d, Inr (FunctionPrior (PyStr ''lgauss_like'') m s
                      (\<lambda>x y s. lgauss env y x s None)
                      (Some (\<lambda>x y s. lnlgauss env y x s None))))"
  using assms
  by (simp add: create_prior_functor_def dict_pop_def dict_get_def dict_getitem_def bind_def
      filter_absent_key)

theorem no_functype_defaults_to_lgauss_like_witness:
  "create_prior_functor example_env [(''mu'', PyNum 2), (''sigma'', PyNum 3)] =
     ([(''mu'', PyNum 2), (''sigma'', PyNum 3)],
      Inr (FunctionPrior (PyStr ''lgauss_like'') (PyNum 2) (PyNum 3)
             (\<lambda>x y s. lgauss example_env y x s None)
             (Some (\<lambda>x y s. lnlgauss example_env y x s None))))"
  using no_functype_defaults_to_lgauss_like
    [of "[(''mu'', PyNum 2), (''sigma'', PyNum 3)]" "PyNum 2" "PyNum 3" example_env]
  by simp

lemma map_of_after_pop:
  "k \<noteq> ''functype'' \<Longrightarrow> map_of (filter (\<lambda>kv. fst kv \<noteq> ''functype'') d) k = map_of d k"
  by (simp add: map_of_filter_key)

lemma prior_yaml_init:
  "FileFuncPrior_init example_env (PyStr ''prior.yaml'') = Inr prior_yaml_instance"
  by (simp add: FileFuncPrior_init_def bind_def py_getitem_def py_get_def dict_getitem_def
      dict_get_def interp1d_def example_env_def prior_yaml_def prior_yaml_instance_def)

text \<open>
  C1, as stated: for every supported \<^verbatim>\<open>functype\<close>, \<^verbatim>\<open>interp\<close> included, the
  object the factory returns has \<^verbatim>\<open>mean()\<close> and \<^verbatim>\<open>sigma()\<close> equal to the
  \<^verbatim>\<open>mu\<close> and \<^verbatim>\<open>sigma\<close> supplied in the dictionary. It fails for
  \<^verbatim>\<open>interp\<close>: that branch reads only \<^verbatim>\<open>d['filename']\<close>, and the dictionary
  with \<^verbatim>\<open>mu\<close> 7 and \<^verbatim>\<open>sigma\<close> 9 gives an object with mean 2 and sigma 3, the
  values in the file.
\<close>

theorem interp_ignores_supplied_mu_sigma:
  "create_prior_functor example_env
       [(''functype'', PyStr ''interp''), (''filename'', PyStr ''prior.yaml''),
        (''mu'', PyNum 7), (''sigma'', PyNum 9)] =
     ([(''filename'', PyStr ''prior.yaml''), (''mu'', PyNum 7), (''sigma'', PyNum 9)],
      Inr prior_yaml_instance)
   \<and> mean prior_yaml_instance = PyNum 2 \<and> sigma prior_yaml_instance = PyNum 3
   \<and> mean prior_yaml_instance \<noteq> PyNum 7 \<and> sigma prior_yaml_instance \<noteq> PyNum 9"
  by (simp add: create_prior_functor_def dict_pop_def dict_get_def dict_getitem_def bind_def
      prior_yaml_init) (simp add: prior_yaml_instance_def)

text \<open>
  C1, amended. Whenever the factory returns an object: for every \<^verbatim>\<open>functype\<close>
  other than \<^verbatim>\<open>interp\<close> (the default and the alias \<^verbatim>\<open>lgauss_lik\<close> included)
  the dictionary has the keys \<^verbatim>\<open>mu\<close> and \<^verbatim>\<open>sigma\<close>, and \<^verbatim>\<open>mean()\<close> and
  \<^verbatim>\<open>sigma()\<close> of the object are their values; for \<^verbatim>\<open>interp\<close> the dictionary
  has the key \<^verbatim>\<open>filename\<close>, the file loads, and \<^verbatim>\<open>mean()\<close> and \<^verbatim>\<open>sigma()\<close>
  are the entries \<^verbatim>\<open>mean\<close> and \<^verbatim>\<open>sigma\<close> of the loaded file.
\<close>

theorem returned_prior_mean_sigma:
  assumes "create_prior_functor env d = (d', Inr p)"
  shows "(dict_get d ''functype'' (PyStr ''lgauss_like'') \<noteq> PyStr ''interp'' \<longrightarrow>
            map_of d ''mu'' = Some (mean p) \<and> map_of d ''sigma'' = Some (sigma p))
       \<and> (dict_get d ''functype'' (PyStr ''lgauss_like'') = PyStr ''interp'' \<longrightarrow>
            (case map_of d ''filename'' of
               None \<Rightarrow> False
             | Some fname \<Rightarrow>
                 (case yaml_load env fname of
                    Inl e \<Rightarrow> False
                  | Inr tbl \<Rightarrow> py_getitem tbl ''mean'' = Inr (mean p)
                               \<and> py_getitem tbl ''sigma'' = Inr (sigma p))))"
proof (rule conjI; rule impI)
  assume "dict_get d ''functype'' (PyStr ''lgauss_like'') \<noteq> PyStr ''interp''"
  then show "map_of d ''mu'' = Some (mean p) \<and> map_of d ''sigma'' = Some (sigma p)"
    using assms
    apply (simp add: create_prior_functor_def dict_pop_def split: if_splits)
         apply (auto simp: bind_def kwargs_mu_sigma_def map_of_filter_key dict_getitem_def
        split: sum.splits option.splits if_splits)
    done
next
  assume "dict_get d ''functype'' (PyStr ''lgauss_like'') = PyStr ''interp''"
  then show "(case map_of d ''filename'' of
               None \<Rightarrow> False
             | Some fname \<Rightarrow>
                 (case yaml_load env fname of
                    Inl e \<Rightarrow> False
                  | Inr tbl \<Rightarrow> py_getitem tbl ''mean'' = Inr (mean p)
                               \<and> py_getitem tbl ''sigma'' = Inr (sigma p)))"
    using assms
    by (auto simp: create_prior_functor_def dict_pop_def bind_def map_of_filter_key
        dict_getitem_def FileFuncPrior_init_def split: sum.splits option.splits)
qed

theorem returned_prior_mean_sigma_witness:
  "create_prior_functor example_env
       [(''functype'', PyStr ''norm''), (''mu'', PyNum 2), (''sigma'', PyNum 3)] =
     ([(''mu'', PyNum 2), (''sigma'', PyNum 3)], Inr (NormPrior (PyNum 2) (PyNum 3)))
   \<and> map_of [(''functype'', PyStr ''norm''), (''mu'', PyNum 2), (''sigma'', PyNum 3)] ''mu'' =
       Some (mean (NormPrior (PyNum 2) (PyNum 3)))
   \<and> map_of [(''functype'', PyStr ''norm''), (''mu'', PyNum 2), (''sigma'', PyNum 3)] ''sigma'' =
       Some (sigma (NormPrior (PyNum 2) (PyNum 3)))
   \<and> create_prior_functor example_env
       [(''functype'', PyStr ''interp''), (''filename'', PyStr ''prior.yaml'')] =
     ([(''filename'', PyStr ''prior.yaml'')], Inr prior_yaml_instance)
   \<and> py_getitem prior_yaml ''mean'' = Inr (mean prior_yaml_instance)
   \<and> py_getitem prior_yaml ''sigma'' = Inr (sigma prior_yaml_instance)"
proof -
  let ?d = "[(''functype'', PyStr ''norm''), (''mu'', PyNum 2), (''sigma'', PyNum 3)]"
  let ?i = "[(''functype'', PyStr ''interp''), (''filename'', PyStr ''prior.yaml'')]"
  have n: "create_prior_functor example_env ?d =
             ([(''mu'', PyNum 2), (''sigma'', PyNum 3)], Inr (NormPrior (PyNum 2) (PyNum 3)))"
    by (simp add: create_prior_functor_def dict_pop_def dict_get_def bind_def
        kwargs_mu_sigma_def)
  have i: "create_prior_functor example_env ?i =
             ([(''filename'', PyStr ''prior.yaml'')], Inr prior_yaml_instance)"
    by (simp add: create_prior_functor_def dict_pop_def dict_get_def dict_getitem_def bind_def
        prior_yaml_init)
  have y: "yaml_load example_env (PyStr ''prior.yaml'') = Inr prior_yaml"
    by (simp add: example_env_def)
  from returned_prior_mean_sigma [OF n]
  have a: "map_of ?d ''mu'' = Some (mean (NormPrior (PyNum 2) (PyNum 3)))
      \<and> map_of ?d ''sigma'' = Some (sigma (NormPrior (PyNum 2) (PyNum 3)))"
    by (simp add: dict_get_def)
  from returned_prior_mean_sigma [OF i] y
  have b: "py_getitem prior_yaml ''mean'' = Inr (mean prior_yaml_instance)
      \<and> py_getitem prior_yaml ''sigma'' = Inr (sigma prior_yaml_instance)"
    by (simp add: dict_get_def)
  show ?thesis using n i a b by simp
qed

lemma cpf_function_types:
  assumes "dict_get d ''functype'' (PyStr ''lgauss_like'') = PyStr t"
    and "t \<in> set [''gauss'', ''lgauss'', ''lgauss_like'', ''lgauss_lik'', ''lgauss_log'']"
  shows "(map_of d ''mu'' = None \<longrightarrow> snd (create_prior_functor env d) = Inl (KeyError ''mu''))
       \<and> (map_of d ''mu'' \<noteq> None \<and> map_of d ''sigma'' = None \<longrightarrow>
            snd (create_prior_functor env d) = Inl (KeyError ''sigma''))"
proof -
  from assms(2) consider "t = ''gauss''" | "t = ''lgauss''" | "t = ''lgauss_like''"
    | "t = ''lgauss_lik''" | "t = ''lgauss_log''"
    by auto
  then show ?thesis
  proof cases
    case 1
    then show ?thesis using assms(1)
      by (auto simp: create_prior_functor_def dict_pop_def map_of_after_pop bind_def
          dict_getitem_def)
  next
    case 2
    then show ?thesis using assms(1)
      by (auto simp: create_prior_functor_def dict_pop_def map_of_after_pop bind_def
          dict_getitem_def)
  next
    case 3
    then show ?thesis using assms(1)
      by (auto simp: create_prior_functor_def dict_pop_def map_of_after_pop bind_def
          dict_getitem_def)
  next
    case 4
    then show ?thesis using assms(1)
      by (auto simp: create_prior_functor_def dict_pop_def map_of_after_pop bind_def
          dict_getitem_def)
  next
    case 5
    then show ?thesis using assms(1)
      by (auto simp: create_prior_functor_def dict_pop_def map_of_after_pop bind_def
          dict_getitem_def)
  qed
qed

lemma kwargs_missing:
  "map_of d ''mu'' = None \<or> map_of d ''sigma'' = None \<Longrightarrow>
   kwargs_mu_sigma (filter (\<lambda>kv. fst kv \<noteq> ''functype'') d) = Inl TypeError"
  by (auto simp: kwargs_mu_sigma_def map_of_after_pop split: option.splits)

lemma cpf_norm_types:
  assumes "dict_get d ''functype'' (PyStr ''lgauss_like'') = PyStr t"
    and "t \<in> set [''norm'', ''lognorm'']"
    and "map_of d ''mu'' = None \<or> map_of d ''sigma'' = None"
  shows "snd (create_prior_functor env d) = Inl TypeError"
proof -
  note k = kwargs_missing [OF assms(3)]
  from assms(2) consider "t = ''norm''" | "t = ''lognorm''" by auto
  then show ?thesis
  proof cases
    case 1
    then show ?thesis using assms(1) k
      by (simp add: create_prior_functor_def dict_pop_def bind_def)
  next
    case 2
    then show ?thesis using assms(1) k
      by (simp add: create_prior_functor_def dict_pop_def bind_def)
  qed
qed

lemma cpf_interp:
  assumes "dict_get d ''functype'' (PyStr ''lgauss_like'') = PyStr ''interp''"
  shows "snd (create_prior_functor env d) =
           (case map_of d ''filename'' of
              None \<Rightarrow> Inl (KeyError ''filename'')
            | Some f \<Rightarrow> FileFuncPrior_init env f)"
  using assms
  by (auto simp: create_prior_functor_def dict_pop_def bind_def dict_getitem_def
      map_of_filter_key split: option.splits)

lemma init_load_error: "yaml_load env f = Inl e \<Longrightarrow> FileFuncPrior_init env f = Inl e"
  by (simp add: FileFuncPrior_init_def bind_def)

lemma init_not_dict:
  "yaml_load env f = Inr v \<Longrightarrow> \<not> is_dict v \<Longrightarrow> FileFuncPrior_init env f = Inl TypeError"
  by (cases v) (simp_all add: FileFuncPrior_init_def bind_def is_dict_def py_getitem_def)

lemma init_missing_key:
  "yaml_load env f = Inr (PyDict tbl) \<Longrightarrow>
   find (\<lambda>k. map_of tbl k = None) [''mean'', ''sigma'', ''x'', ''y''] = Some k \<Longrightarrow>
   FileFuncPrior_init env f = Inl (KeyError k)"
  by (auto simp: FileFuncPrior_init_def bind_def py_getitem_def dict_getitem_def
      split: if_splits option.splits)

lemma init_interp1d_error:
  "yaml_load env f = Inr (PyDict tbl) \<Longrightarrow>
   map_of tbl ''mean'' = Some mu \<Longrightarrow> map_of tbl ''sigma'' = Some sg \<Longrightarrow>
   map_of tbl ''x'' = Some x \<Longrightarrow> map_of tbl ''y'' = Some y \<Longrightarrow>
   interp1d_check env x y (dict_get tbl ''kind'' (PyStr ''linear''))
     (dict_get tbl ''fill_value'' (PyNum 0)) = Some e \<Longrightarrow>
   FileFuncPrior_init env f = Inl e"
  by (simp add: FileFuncPrior_init_def bind_def py_getitem_def py_get_def dict_getitem_def
      interp1d_def)

text \<open>
  C7. For every dictionary whose \<^verbatim>\<open>functype\<close> is a recognized string, the error
  of the failing expression is the error of the factory, unchanged. A missing
  \<^verbatim>\<open>mu\<close>, or \<^verbatim>\<open>sigma\<close> with \<^verbatim>\<open>mu\<close> present, is the KeyError of the subscript
  for the \<^verbatim>\<open>FunctionPrior\<close> types and the TypeError of the keyword call for
  \<^verbatim>\<open>norm\<close> and \<^verbatim>\<open>lognorm\<close>; a missing \<^verbatim>\<open>filename\<close> is the KeyError of the
  subscript; with a file name the result is that of the constructor of
  \<^verbatim>\<open>FileFuncPrior\<close>, which raises what the loader raises, TypeError when the loaded
  object is not a dictionary, KeyError for the first of \<^verbatim>\<open>mean\<close>, \<^verbatim>\<open>sigma\<close>,
  \<^verbatim>\<open>x\<close>, \<^verbatim>\<open>y\<close> that the file lacks, and what \<^verbatim>\<open>interp1d\<close> raises on the table.
\<close>

theorem construction_errors_propagate:
  assumes "dict_get d ''functype'' (PyStr ''lgauss_like'') = PyStr t"
  shows
    "(t \<in> set [''gauss'', ''lgauss'', ''lgauss_like'', ''lgauss_lik'', ''lgauss_log'']
        \<and> map_of d ''mu'' = None \<longrightarrow>
      snd (create_prior_functor env d) = Inl (KeyError ''mu''))
   \<and> (t \<in> set [''gauss'', ''lgauss'', ''lgauss_like'', ''lgauss_lik'', ''lgauss_log'']
        \<and> map_of d ''mu'' \<noteq> None \<and> map_of d ''sigma'' = None \<longrightarrow>
      snd (create_prior_functor env d) = Inl (KeyError ''sigma''))
   \<and> (t \<in> set [''norm'', ''lognorm'']
        \<and> (map_of d ''mu'' = None \<or> map_of d ''sigma'' = None) \<longrightarrow>
      snd (create_prior_functor env d) = Inl TypeError)
   \<and> (t = ''interp'' \<and> map_of d ''filename'' = None \<longrightarrow>
      snd (create_prior_functor env d) = Inl (KeyError ''filename''))
   \<and> (t = ''interp'' \<and> map_of d ''filename'' = Some f \<longrightarrow>
      snd (create_prior_functor env d) = FileFuncPrior_init env f)
   \<and> (yaml_load env f = Inl e \<longrightarrow> FileFuncPrior_init env f = Inl e)
   \<and> (yaml_load env f = Inr v \<and> \<not> is_dict v \<longrightarrow> FileFuncPrior_init env f = Inl TypeError)
   \<and> (yaml_load env f = Inr (PyDict tbl)
        \<and> find (\<lambda>k. map_of tbl k = None) [''mean'', ''sigma'', ''x'', ''y''] = Some k \<longrightarrow>
      FileFuncPrior_init env f = Inl (KeyError k))
   \<and> (yaml_load env f = Inr (PyDict tbl)
        \<and> map_of tbl ''mean'' = Some mu \<and> map_of tbl ''sigma'' = Some sg
        \<and> map_of tbl ''x'' = Some x \<and> map_of tbl ''y'' = Some y
        \<and> interp1d_check env x y (dict_get tbl ''kind'' (PyStr ''linear''))
             (dict_get tbl ''fill_value'' (PyNum 0)) = Some e \<longrightarrow>
      FileFuncPrior_init env f = Inl e)"
proof -
  note a = cpf_function_types [OF assms, of env]
  note b = cpf_norm_types [OF assms, of env]
  have c: "t = ''interp'' \<Longrightarrow> snd (create_prior_functor env d) =
           (case map_of d ''filename'' of
              None \<Rightarrow> Inl (KeyError ''filename'')
            | Some f \<Rightarrow> FileFuncPrior_init env f)"
    using assms cpf_interp [of d env] by simp
  show ?thesis
    apply (intro conjI impI)
    subgoal using a by blast
    subgoal using a by blast
    subgoal using b by blast
    subgoal using c by simp
    subgoal using c by simp
    subgoal by (rule init_load_error) simp
    subgoal by (rule init_not_dict [of env f v]) simp_all
    subgoal by (rule init_missing_key [of env f tbl]) simp_all
    subgoal by (rule init_interp1d_error [of env f tbl mu sg x y]) simp_all
    done
qed

theorem construction_errors_propagate_witness:
  "snd (create_prior_functor example_env [(''functype'', PyStr ''lgauss''), (''mu'', PyNum 2)]) =
     Inl (KeyError ''sigma'')
   \<and> snd (create_prior_functor example_env [(''functype'', PyStr ''norm''), (''mu'', PyNum 2)]) =
     Inl TypeError
   \<and> snd (create_prior_functor example_env
        [(''functype'', PyStr ''interp''), (''filename'', PyStr ''absent.yaml'')]) =
     Inl IOError"
proof -
  let ?a = "[(''functype'', PyStr ''lgauss''), (''mu'', PyNum 2)]"
  let ?b = "[(''functype'', PyStr ''norm''), (''mu'', PyNum 2)]"
  let ?c = "[(''functype'', PyStr ''interp''), (''filename'', PyStr ''absent.yaml'')]"
  have ha: "dict_get ?a ''functype'' (PyStr ''lgauss_like'') = PyStr ''lgauss''"
    by (simp add: dict_get_def)
  have hb: "dict_get ?b ''functype'' (PyStr ''lgauss_like'') = PyStr ''norm''"
    by (simp add: dict_get_def)
  have hc: "dict_get ?c ''functype'' (PyStr ''lgauss_like'') = PyStr ''interp''"
    by (simp add: dict_get_def)
  have y: "yaml_load example_env (PyStr ''absent.yaml'') = Inl IOError"
    by (simp add: example_env_def)
  note a = construction_errors_propagate
      [OF ha, of example_env "PyStr ''absent.yaml''" IOError PyNone "[]" "''mean''"
        PyNone PyNone PyNone PyNone]
  note b = construction_errors_propagate
      [OF hb, of example_env "PyStr ''absent.yaml''" IOError PyNone "[]" "''mean''"
        PyNone PyNone PyNone PyNone]
  note c = construction_errors_propagate
      [OF hc, of example_env "PyStr ''absent.yaml''" IOError PyNone "[]" "''mean''"
        PyNone PyNone PyNone PyNone]
  have 1: "snd (create_prior_functor example_env ?a) = Inl (KeyError ''sigma'')"
    using a [THEN conjunct2, THEN conjunct1] by simp
  have 2: "snd (create_prior_functor example_env ?b) = Inl TypeError"
    using b [THEN conjunct2, THEN conjunct2, THEN conjunct1] by simp
  have 3: "snd (create_prior_functor example_env ?c) =
             FileFuncPrior_init example_env (PyStr ''absent.yaml'')"
    using c [THEN conjunct2, THEN conjunct2, THEN conjunct2, THEN conjunct2, THEN conjunct1]
    by simp
  have 4: "FileFuncPrior_init example_env (PyStr ''absent.yaml'') = Inl IOError"
    using y c [THEN conjunct2, THEN conjunct2, THEN conjunct2, THEN conjunct2, THEN conjunct2,
        THEN conjunct1]
    by simp
  show ?thesis using 1 2 3 4 by simp
qed

lemma cpf_fst: "fst (create_prior_functor env d) = filter (\<lambda>kv. fst kv \<noteq> ''functype'') d"
  by (simp add: create_prior_functor_def dict_pop_def)

lemma bind_kwargs_Inl_iff: "bind r (\<lambda>(m, s). Inr (K m s)) = Inl e \<longleftrightarrow> r = Inl e"
  by (cases r) (simp_all add: bind_def split: prod.splits)

lemma bind_subscripts_Inl_iff:
  "bind a (\<lambda>m. bind b (\<lambda>s. Inr (K m s))) = Inl e \<longleftrightarrow>
   (case a of Inl e' \<Rightarrow> e' = e | Inr m \<Rightarrow> b = Inl e)"
  by (cases a; cases b) (simp_all add: bind_def)

lemma bind_init_Inl_iff:
  "bind a k = Inl e \<longleftrightarrow> (case a of Inl e' \<Rightarrow> e' = e | Inr f \<Rightarrow> k f = Inl e)"
  by (cases a) (simp_all add: bind_def)

lemma cpf_error_norm:
  assumes "dict_get d ''functype'' (PyStr ''lgauss_like'') = PyStr ''norm''"
  shows "snd (create_prior_functor env d) = Inl e \<longleftrightarrow>
         kwargs_mu_sigma (filter (\<lambda>kv. fst kv \<noteq> ''functype'') d) = Inl e"
proof -
  have "snd (create_prior_functor env d) =
      bind (kwargs_mu_sigma (filter (\<lambda>kv. fst kv \<noteq> ''functype'') d))
        (\<lambda>(m, s). Inr (NormPrior m s))"
    using assms by (simp add: create_prior_functor_def dict_pop_def)
  then show ?thesis by (simp only: bind_kwargs_Inl_iff)
qed

lemma cpf_error_lognorm:
  assumes "dict_get d ''functype'' (PyStr ''lgauss_like'') = PyStr ''lognorm''"
  shows "snd (create_prior_functor env d) = Inl e \<longleftrightarrow>
         kwargs_mu_sigma (filter (\<lambda>kv. fst kv \<noteq> ''functype'') d) = Inl e"
proof -
  have "snd (create_prior_functor env d) =
      bind (kwargs_mu_sigma (filter (\<lambda>kv. fst kv \<noteq> ''functype'') d))
        (\<lambda>(m, s). Inr (LognormPrior m s))"
    using assms by (simp add: create_prior_functor_def dict_pop_def)
  then show ?thesis by (simp only: bind_kwargs_Inl_iff)
qed

lemma cpf_error_gauss:
  assumes "dict_get d ''functype'' (PyStr ''lgauss_like'') = PyStr ''gauss''"
  shows "snd (create_prior_functor env d) = Inl e \<longleftrightarrow>
         (case dict_getitem (filter (\<lambda>kv. fst kv \<noteq> ''functype'') d) ''mu'' of
            Inl e' \<Rightarrow> e' = e
          | Inr m \<Rightarrow> dict_getitem (filter (\<lambda>kv. fst kv \<noteq> ''functype'') d) ''sigma'' = Inl e)"
proof -
  have "snd (create_prior_functor env d) =
      bind (dict_getitem (filter (\<lambda>kv. fst kv \<noteq> ''functype'') d) ''mu'') (\<lambda>m.
      bind (dict_getitem (filter (\<lambda>kv. fst kv \<noteq> ''functype'') d) ''sigma'') (\<lambda>s.
        Inr (FunctionPrior (PyStr ''gauss'') m s (gauss env) (Some (lngauss env)))))"
    using assms by (simp add: create_prior_functor_def dict_pop_def)
  then show ?thesis by (simp only: bind_subscripts_Inl_iff)
qed

lemma cpf_error_lgauss:
  assumes "dict_get d ''functype'' (PyStr ''lgauss_like'') = PyStr ''lgauss''"
  shows "snd (create_prior_functor env d) = Inl e \<longleftrightarrow>
         (case dict_getitem (filter (\<lambda>kv. fst kv \<noteq> ''functype'') d) ''mu'' of
            Inl e' \<Rightarrow> e' = e
          | Inr m \<Rightarrow> dict_getitem (filter (\<lambda>kv. fst kv \<noteq> ''functype'') d) ''sigma'' = Inl e)"
proof -
  have "snd (create_prior_functor env d) =
      bind (dict_getitem (filter (\<lambda>kv. fst kv \<noteq> ''functype'') d) ''mu'') (\<lambda>m.
      bind (dict_getitem (filter (\<lambda>kv. fst kv \<noteq> ''functype'') d) ''sigma'') (\<lambda>s.
        Inr (FunctionPrior (PyStr ''lgauss'') m s (\<lambda>x y s. lgauss env x y s None) (Some (\<lambda>x y s. lnlgauss env x y s None)))))"
    using assms by (simp add: create_prior_functor_def dict_pop_def)
  then show ?thesis by (simp only: bind_subscripts_Inl_iff)
qed

lemma cpf_error_lgauss_like:
  assumes "dict_get d ''functype'' (PyStr ''lgauss_like'') = PyStr ''lgauss_like''"
  shows "snd (create_prior_functor env d) = Inl e \<longleftrightarrow>
         (case dict_getitem (filter (\<lambda>kv. fst kv \<noteq> ''functype'') d) ''mu'' of
            Inl e' \<Rightarrow> e' = e
          | Inr m \<Rightarrow> dict_getitem (filter (\<lambda>kv. fst kv \<noteq> ''functype'') d) ''sigma'' = Inl e)"
proof -
  have "snd (create_prior_functor env d) =
      bind (dict_getitem (filter (\<lambda>kv. fst kv \<noteq> ''functype'') d) ''mu'') (\<lambda>m.
      bind (dict_getitem (filter (\<lambda>kv. fst kv \<noteq> ''functype'') d) ''sigma'') (\<lambda>s.
        Inr (FunctionPrior (PyStr ''lgauss_like'') m s (\<lambda>x y s. lgauss env y x s None) (Some (\<lambda>x y s. lnlgauss env y x s None)))))"
    using assms by (simp add: create_prior_functor_def dict_pop_def)
  then show ?thesis by (simp only: bind_subscripts_Inl_iff)
qed

lemma cpf_error_lgauss_lik:
  assumes "dict_get d ''functype'' (PyStr ''lgauss_like'') = PyStr ''lgauss_lik''"
  shows "snd (create_prior_functor env d) = Inl e \<longleftrightarrow>
         (case dict_getitem (filter (\<lambda>kv. fst kv \<noteq> ''functype'') d) ''mu'' of
            Inl e' \<Rightarrow> e' = e
          | Inr m \<Rightarrow> dict_getitem (filter (\<lambda>kv. fst kv \<noteq> ''functype'') d) ''sigma'' = Inl e)"
proof -
  have "snd (create_prior_functor env d) =
      bind (dict_getitem (filter (\<lambda>kv. fst kv \<noteq> ''functype'') d) ''mu'') (\<lambda>m.
      bind (dict_getitem (filter (\<lambda>kv. fst kv \<noteq> ''functype'') d) ''sigma'') (\<lambda>s.
        Inr (FunctionPrior (PyStr ''lgauss_lik'') m s (\<lambda>x y s. lgauss env y x s None) (Some (\<lambda>x y s. lnlgauss env y x s None)))))"
    using assms by (simp add: create_prior_functor_def dict_pop_def)
  then show ?thesis by (simp only: bind_subscripts_Inl_iff)
qed

lemma cpf_error_lgauss_log:
  assumes "dict_get d ''functype'' (PyStr ''lgauss_like'') = PyStr ''lgauss_log''"
  shows "snd (create_prior_functor env d) = Inl e \<longleftrightarrow>
         (case dict_getitem (filter (\<lambda>kv. fst kv \<noteq> ''functype'') d) ''mu'' of
            Inl e' \<Rightarrow> e' = e
          | Inr m \<Rightarrow> dict_getitem (filter (\<lambda>kv. fst kv \<noteq> ''functype'') d) ''sigma'' = Inl e)"
proof -
  have "snd (create_prior_functor env d) =
      bind (dict_getitem (filter (\<lambda>kv. fst kv \<noteq> ''functype'') d) ''mu'') (\<lambda>m.
      bind (dict_getitem (filter (\<lambda>kv. fst kv \<noteq> ''functype'') d) ''sigma'') (\<lambda>s.
        Inr (FunctionPrior (PyStr ''lgauss_log'') m s (\<lambda>x y s. lgauss env x y s (Some True)) (Some (\<lambda>x y s. lnlgauss env x y s (Some True))))))"
    using assms by (simp add: create_prior_functor_def dict_pop_def)
  then show ?thesis by (simp only: bind_subscripts_Inl_iff)
qed

lemma cpf_error_interp:
  assumes "dict_get d ''functype'' (PyStr ''lgauss_like'') = PyStr ''interp''"
  shows "snd (create_prior_functor env d) = Inl e \<longleftrightarrow>
         (case dict_getitem (filter (\<lambda>kv. fst kv \<noteq> ''functype'') d) ''filename'' of
            Inl e' \<Rightarrow> e' = e
          | Inr f \<Rightarrow> FileFuncPrior_init env f = Inl e)"
proof -
  have "snd (create_prior_functor env d) =
          bind (dict_getitem (filter (\<lambda>kv. fst kv \<noteq> ''functype'') d) ''filename'')
            (\<lambda>fname. FileFuncPrior_init env fname)"
    using assms by (simp add: create_prior_functor_def dict_pop_def)
  then show ?thesis by (simp only: bind_init_Inl_iff)
qed

text \<open>
  C2. For every dictionary whose \<^verbatim>\<open>functype\<close> (the default when the key is
  absent) is a string \<open>t\<close>: if \<open>t\<close> is none of the recognized types, the
  factory raises KeyError with the message \<^verbatim>\<open>Unrecognized prior_functor type\<close>
  followed by \<open>t\<close>; and if \<open>t\<close> is a recognized type, the factory raises an
  error exactly when an expression of the branch for \<open>t\<close> raises it: the keyword
  call for \<^verbatim>\<open>norm\<close> and \<^verbatim>\<open>lognorm\<close>, \<^verbatim>\<open>d['filename']\<close> or the constructor
  of \<^verbatim>\<open>FileFuncPrior\<close> for \<^verbatim>\<open>interp\<close>, \<^verbatim>\<open>d['mu']\<close> or \<^verbatim>\<open>d['sigma']\<close>
  for the others. The factory neither adds an error to those of its branch nor
  changes or swallows one, so the KeyError above is the only error of its own
  making.
\<close>

theorem unrecognized_functype_is_the_only_own_error:
  assumes "dict_get d ''functype'' (PyStr ''lgauss_like'') = PyStr t"
  shows "(t \<notin> set recognized_types \<longrightarrow>
           snd (create_prior_functor env d) =
             Inl (KeyError (''Unrecognized prior_functor type '' @ t)))
       \<and> (t \<in> set recognized_types \<longrightarrow>
            (snd (create_prior_functor env d) = Inl e \<longleftrightarrow>
             raised_by_callee env t (fst (create_prior_functor env d)) e))"
proof (rule conjI; rule impI)
  assume "t \<notin> set recognized_types"
  then show "snd (create_prior_functor env d) =
             Inl (KeyError (''Unrecognized prior_functor type '' @ t))"
    using assms
    by (simp add: create_prior_functor_def dict_pop_def recognized_types_def percent_s_def)
next
  let ?goal = "\<lambda>t. snd (create_prior_functor env d) = Inl e \<longleftrightarrow>
             raised_by_callee env t (fst (create_prior_functor env d)) e"
  assume "t \<in> set recognized_types"
  then have d: "t = ''norm'' \<or> t = ''lognorm'' \<or> t = ''gauss'' \<or> t = ''lgauss''
      \<or> t = ''lgauss_like'' \<or> t = ''lgauss_lik'' \<or> t = ''lgauss_log'' \<or> t = ''interp''"
    by (simp add: recognized_types_def)
  have c1: "?goal ''norm''"
    if "dict_get d ''functype'' (PyStr ''lgauss_like'') = PyStr ''norm''"
    unfolding cpf_fst cpf_error_norm [OF that] by (simp add: raised_by_callee_def)
  have c2: "?goal ''lognorm''"
    if "dict_get d ''functype'' (PyStr ''lgauss_like'') = PyStr ''lognorm''"
    unfolding cpf_fst cpf_error_lognorm [OF that] by (simp add: raised_by_callee_def)
  have c3: "?goal ''gauss''"
    if "dict_get d ''functype'' (PyStr ''lgauss_like'') = PyStr ''gauss''"
    unfolding cpf_fst cpf_error_gauss [OF that] by (simp add: raised_by_callee_def)
  have c4: "?goal ''lgauss''"
    if "dict_get d ''functype'' (PyStr ''lgauss_like'') = PyStr ''lgauss''"
    unfolding cpf_fst cpf_error_lgauss [OF that] by (simp add: raised_by_callee_def)
  have c5: "?goal ''lgauss_like''"
    if "dict_get d ''functype'' (PyStr ''lgauss_like'') = PyStr ''lgauss_like''"
    unfolding cpf_fst cpf_error_lgauss_like [OF that] by (simp add: raised_by_callee_def)
  have c6: "?goal ''lgauss_lik''"
    if "dict_get d ''functype'' (PyStr ''lgauss_like'') = PyStr ''lgauss_lik''"
    unfolding cpf_fst cpf_error_lgauss_lik [OF that] by (simp add: raised_by_callee_def)
  have c7: "?goal ''lgauss_log''"
    if "dict_get d ''functype'' (PyStr ''lgauss_like'') = PyStr ''lgauss_log''"
    unfolding cpf_fst cpf_error_lgauss_log [OF that] by (simp add: raised_by_callee_def)
  have c8: "?goal ''interp''"
    if "dict_get d ''functype'' (PyStr ''lgauss_like'') = PyStr ''interp''"
    unfolding cpf_fst cpf_error_interp [OF that] by (simp add: raised_by_callee_def)
  from d assms c1 c2 c3 c4 c5 c6 c7 c8
  show "snd (create_prior_functor env d) = Inl e \<longleftrightarrow>
             raised_by_callee env t (fst (create_prior_functor env d)) e"
    by blast
qed

theorem unrecognized_functype_is_the_only_own_error_witness:
  "snd (create_prior_functor example_env [(''functype'', PyStr ''cauchy'')]) =
     Inl (KeyError ''Unrecognized prior_functor type cauchy'')
   \<and> snd (create_prior_functor example_env [(''functype'', PyStr ''gauss'')]) =
       Inl (KeyError ''mu'')
   \<and> raised_by_callee example_env ''gauss'' [] (KeyError ''mu'')
   \<and> snd (create_prior_functor example_env [(''functype'', PyStr ''gauss'')]) \<noteq>
       Inl (KeyError ''filename'')"
proof -
  let ?c = "[(''functype'', PyStr ''cauchy'')]"
  let ?g = "[(''functype'', PyStr ''gauss'')]"
  have hc: "dict_get ?c ''functype'' (PyStr ''lgauss_like'') = PyStr ''cauchy''"
    by (simp add: dict_get_def)
  have hg: "dict_get ?g ''functype'' (PyStr ''lgauss_like'') = PyStr ''gauss''"
    by (simp add: dict_get_def)
  have nc: "''cauchy'' \<notin> set recognized_types" by (simp add: recognized_types_def)
  have rg: "''gauss'' \<in> set recognized_types" by (simp add: recognized_types_def)
  have f: "fst (create_prior_functor example_env ?g) = []"
    by (simp add: create_prior_functor_def dict_pop_def)
  have r1: "raised_by_callee example_env ''gauss'' [] (KeyError ''mu'')"
    by (simp add: raised_by_callee_def dict_getitem_def)
  have r2: "\<not> raised_by_callee example_env ''gauss'' [] (KeyError ''filename'')"
    by (simp add: raised_by_callee_def dict_getitem_def)
  have 1: "snd (create_prior_functor example_env ?c) =
     Inl (KeyError ''Unrecognized prior_functor type cauchy'')"
    using unrecognized_functype_is_the_only_own_error [OF hc, of example_env, THEN conjunct1] nc
    by simp
  have 2: "snd (create_prior_functor example_env ?g) = Inl (KeyError ''mu'')"
    using unrecognized_functype_is_the_only_own_error
        [OF hg, of example_env "KeyError ''mu''", THEN conjunct2] rg r1 f
    by simp
  have 3: "snd (create_prior_functor example_env ?g) \<noteq> Inl (KeyError ''filename'')"
    using unrecognized_functype_is_the_only_own_error
        [OF hg, of example_env "KeyError ''filename''", THEN conjunct2] rg r2 f
    by simp
  show ?thesis using 1 2 3 r1 by simp
qed

lemma extrapolate_yaml_init:
  "FileFuncPrior_init example_env (PyStr ''extrapolate.yaml'') = Inr extrapolate_yaml_instance"
  by (simp add: FileFuncPrior_init_def bind_def py_getitem_def py_get_def dict_getitem_def
      dict_get_def interp1d_def example_env_def extrapolate_yaml_def
      extrapolate_yaml_instance_def)

text \<open>
  C4, as stated: for every configured fill value, a call outside the range of
  \<^verbatim>\<open>x\<close> returns that value. It fails for the file whose \<^verbatim>\<open>fill_value\<close> is
  \<^verbatim>\<open>'extrapolate'\<close>: the constructor passes the string on to \<^verbatim>\<open>interp1d\<close>,
  for which it is a setting and not a value, and with the table (1, 10), (2, 20),
  (4, 40) the call at 5 returns 50, on the line through the last two points.
\<close>

theorem extrapolate_fill_value_is_not_returned:
  "create_prior_functor example_env
       [(''functype'', PyStr ''interp''), (''filename'', PyStr ''extrapolate.yaml'')] =
     ([(''filename'', PyStr ''extrapolate.yaml'')], Inr extrapolate_yaml_instance)
   \<and> py_get extrapolate_yaml ''fill_value'' (PyNum 0) = Inr (PyStr ''extrapolate'')
   \<and> call example_env extrapolate_yaml_instance (PyNum 5) = Inr (PyNum 50)
   \<and> call example_env extrapolate_yaml_instance (PyNum 5) \<noteq> Inr (PyStr ''extrapolate'')"
proof -
  have a: "create_prior_functor example_env
       [(''functype'', PyStr ''interp''), (''filename'', PyStr ''extrapolate.yaml'')] =
     ([(''filename'', PyStr ''extrapolate.yaml'')], Inr extrapolate_yaml_instance)"
    by (simp add: create_prior_functor_def dict_pop_def dict_get_def dict_getitem_def bind_def
        extrapolate_yaml_init)
  have b: "py_get extrapolate_yaml ''fill_value'' (PyNum 0) = Inr (PyStr ''extrapolate'')"
    by (simp add: py_get_def extrapolate_yaml_def dict_get_def)
  have c: "call example_env extrapolate_yaml_instance (PyNum 5) = Inr (PyNum 50)"
    by (simp add: extrapolate_yaml_instance_def interp1d_call_def example_env_def on_line_def)
  show ?thesis using a b c by simp
qed

text \<open>
  C4, amended. For every \<^verbatim>\<open>FileFuncPrior\<close> constructed from a file whose
  \<^verbatim>\<open>x\<close> and \<^verbatim>\<open>y\<close> are lists of numbers and whose \<^verbatim>\<open>fill_value\<close> is a
  number \<open>c\<close> (0 when the file has no \<^verbatim>\<open>fill_value\<close>), the call of the prior
  at a number that, as \<^verbatim>\<open>interp1d\<close> converts it to a float, is below the least
  or above the greatest converted \<^verbatim>\<open>x\<close> returns \<open>c\<close> as a float and does not
  raise: the constructor passes \<^verbatim>\<open>bounds_error=False\<close> and the fill value of
  the file to \<^verbatim>\<open>interp1d\<close>, and \<^verbatim>\<open>__call__\<close> is the call of the object it
  built.
\<close>

theorem FileFuncPrior_outside_range_returns_fill_value:
  assumes "yaml_load env f = Inr (PyDict tbl)"
    and "FileFuncPrior_init env f = Inr p"
    and "map_of tbl ''x'' = Some (PyList xs)" and "nums xs = Some rs"
    and "map_of tbl ''y'' = Some (PyList ys)" and "nums ys = Some qs"
    and "as_floats env rs = Inr fs" and "fs \<noteq> []"
    and "dict_get tbl ''fill_value'' (PyNum 0) = PyNum c"
    and "float64 env c = Inr c'"
    and "float64 env t = Inr t'"
    and "t' < Min (set fs) \<or> Max (set fs) < t'"
  shows "call env p (PyNum t) = Inr (PyNum c')"
proof -
  have p: "p = FileFuncPrior
              \<lparr>filename = f, ff_mu = the (map_of tbl ''mean''),
               ff_sigma = the (map_of tbl ''sigma''), ff_x = PyList xs, ff_y = PyList ys,
               ff_kind = dict_get tbl ''kind'' (PyStr ''linear''), ff_fill_value = PyNum c,
               interpfunc = \<lparr>ix = PyList xs, iy = PyList ys,
                 ikind = dict_get tbl ''kind'' (PyStr ''linear''), bounds_error = False,
                 ifill_value = PyNum c\<rparr>\<rparr>"
    using assms(1,2,3,5,9)
    by (auto simp: FileFuncPrior_init_def bind_def py_getitem_def py_get_def dict_getitem_def
        interp1d_def split: sum.splits option.splits)
  show ?thesis
    unfolding p using assms(4,6,7,8,10,11,12)
    by (simp add: interp1d_call_def bind_def)
qed

theorem FileFuncPrior_outside_range_returns_fill_value_witness:
  "FileFuncPrior_init example_env (PyStr ''prior.yaml'') = Inr prior_yaml_instance
   \<and> call example_env prior_yaml_instance (PyNum 5) = Inr (PyNum 0)
   \<and> call example_env prior_yaml_instance (PyNum (1/2)) = Inr (PyNum 0)"
proof -
  have y: "yaml_load example_env (PyStr ''prior.yaml'') =
      Inr (PyDict [(''mean'', PyNum 2), (''sigma'', PyNum 3),
             (''x'', PyList [PyNum 1, PyNum 2, PyNum 4]),
             (''y'', PyList [PyNum 10, PyNum 20, PyNum 40])])"
    by (simp add: example_env_def prior_yaml_def)
  note i = prior_yaml_init
  have fl: "float64 example_env r = Inr r" for r by (simp add: example_env_def)
  have a: "call example_env prior_yaml_instance (PyNum 5) = Inr (PyNum 0)"
    by (rule FileFuncPrior_outside_range_returns_fill_value
          [OF y i, of "[PyNum 1, PyNum 2, PyNum 4]" "[1, 2, 4]"
          "[PyNum 10, PyNum 20, PyNum 40]" "[10, 20, 40]" "[1, 2, 4]" 0 0 5 5])
      (simp_all add: dict_get_def bind_def fl)
  have b: "call example_env prior_yaml_instance (PyNum (1/2)) = Inr (PyNum 0)"
    by (rule FileFuncPrior_outside_range_returns_fill_value
          [OF y i, of "[PyNum 1, PyNum 2, PyNum 4]" "[1, 2, 4]"
          "[PyNum 10, PyNum 20, PyNum 40]" "[10, 20, 40]" "[1, 2, 4]" 0 0 "1/2" "1/2"])
      (simp_all add: dict_get_def bind_def fl)
  show ?thesis using i a b by simp
qed

lemma norm_density_at_loc: "norm_density m s m = 1 / (s * sqrt (2 * pi))"
  by (simp add: norm_density_def)

lemma norm_density_le_peak:
  assumes "0 < s"
  shows "norm_density m s x \<le> 1 / (s * sqrt (2 * pi))"
proof -
  have "exp (- ((x - m) / s)\<^sup>2 / 2) \<le> 1" by simp
  moreover have "0 < s * sqrt (2 * pi)" using assms by simp
  ultimately show ?thesis
    unfolding norm_density_def by (simp add: divide_right_mono)
qed

lemma lognorm_density_at_scale:
  assumes "0 < m"
  shows "lognorm_density s m m = 1 / (s * m * sqrt (2 * pi))"
  using assms by (simp add: lognorm_density_def)

lemma lognorm_density_at_mode:
  assumes "0 < m" and "0 < s"
  shows "lognorm_density s m (m * exp (- s\<^sup>2)) = exp (s\<^sup>2 / 2) / (s * m * sqrt (2 * pi))"
proof -
  have pos: "0 < m * exp (- s\<^sup>2)" using assms by simp
  have l: "ln (m * exp (- s\<^sup>2) / m) = - s\<^sup>2" using assms by simp
  have e: "- (- s\<^sup>2)\<^sup>2 / (2 * s\<^sup>2) = - (s\<^sup>2 / 2)"
    using assms by (simp add: power2_eq_square)
  have "lognorm_density s m (m * exp (- s\<^sup>2)) =
          exp (- (ln (m * exp (- s\<^sup>2) / m))\<^sup>2 / (2 * s\<^sup>2)) /
            (s * (m * exp (- s\<^sup>2)) * sqrt (2 * pi))"
    using pos by (simp only: lognorm_density_def if_True)
  also have "\<dots> = exp (- (s\<^sup>2 / 2)) / (s * (m * exp (- s\<^sup>2)) * sqrt (2 * pi))"
    by (simp only: l e)
  also have "\<dots> = (exp (- (s\<^sup>2 / 2)) / exp (- s\<^sup>2)) / (s * m * sqrt (2 * pi))"
    by (simp add: field_simps)
  also have "exp (- (s\<^sup>2 / 2)) / exp (- s\<^sup>2) = exp (s\<^sup>2 / 2)"
    by (simp add: exp_diff [symmetric])
  finally show ?thesis .
qed

lemma lognorm_peak_above_scale:
  assumes "0 < m" and "0 < s"
  shows "1 / (s * m * sqrt (2 * pi)) < exp (s\<^sup>2 / 2) / (s * m * sqrt (2 * pi))"
proof -
  have "1 < exp (s\<^sup>2 / 2)" using assms by simp
  moreover have "0 < s * m * sqrt (2 * pi)" using assms by simp
  ultimately show ?thesis by (simp add: divide_strict_right_mono)
qed

text \<open>
  C5, as stated: for every prior, the value at its own mean is the peak of the
  wrapped density. It fails for \<^verbatim>\<open>LognormPrior\<close>, whose \<^verbatim>\<open>mean()\<close> is the
  \<^verbatim>\<open>scale\<close> of \<^verbatim>\<open>lognorm\<close>, the median of the distribution and not its mode:
  with \<^verbatim>\<open>mu\<close> 1 and \<^verbatim>\<open>sigma\<close> 1 the value at the mean is
  \<open>1 / sqrt (2 pi)\<close>, and the value at \<open>exp (- 1)\<close> is greater by the factor
  \<open>exp (1 / 2)\<close>.
\<close>

theorem lognorm_value_at_mean_is_not_the_peak:
  "call example_env (LognormPrior (PyNum 1) (PyNum 1)) (mean (LognormPrior (PyNum 1) (PyNum 1))) =
     Inr (PyNum (1 / sqrt (2 * pi)))
   \<and> call example_env (LognormPrior (PyNum 1) (PyNum 1)) (PyNum (exp (- 1))) =
     Inr (PyNum (exp (1 / 2) / sqrt (2 * pi)))
   \<and> 1 / sqrt (2 * pi) < exp (1 / 2) / sqrt (2 * pi)"
proof -
  have a: "lognorm_density 1 1 1 = 1 / sqrt (2 * pi)"
    using lognorm_density_at_scale [of 1 1] by simp
  have b: "lognorm_density 1 1 (exp (- 1)) = exp (1 / 2) / sqrt (2 * pi)"
    using lognorm_density_at_mode [of 1 1] by simp
  have c: "1 / sqrt (2 * pi) < exp (1 / 2) / sqrt (2 * pi)"
    using lognorm_peak_above_scale [of 1 1] by simp
  show ?thesis using a b c by (simp add: example_env_def)
qed

text \<open>
  C5, amended. With the densities of \<^verbatim>\<open>scipy.stats\<close> as documented, over the
  reals: for \<^verbatim>\<open>NormPrior\<close> with \<^verbatim>\<open>sigma\<close> positive the value at the mean is
  \<open>1 / (sigma sqrt (2 pi))\<close>, and no value of the prior is greater; for
  \<^verbatim>\<open>LognormPrior\<close> with \<^verbatim>\<open>mu\<close> and \<^verbatim>\<open>sigma\<close> positive the value at the mean
  is \<open>1 / (sigma mu sqrt (2 pi))\<close>, which is not the peak, the value at
  \<open>mu exp (- sigma\<^sup>2)\<close> being greater by the factor \<open>exp (sigma\<^sup>2 / 2)\<close>; and
  for a \<^verbatim>\<open>FunctionPrior\<close> the value at the mean is \<^verbatim>\<open>fn(mu, mu, sigma)\<close>, which
  for the four subclasses is the routine of \<^verbatim>\<open>stat_funcs\<close> at \<^verbatim>\<open>(mu, mu, sigma)\<close>,
  with \<^verbatim>\<open>logpdf=True\<close> for \<^verbatim>\<open>LGaussLogPrior\<close>.
\<close>

theorem value_at_mean:
  assumes "0 < s"
    and "\<And>x. norm_pdf env (PyNum m) (PyNum s) (PyNum x) = Inr (PyNum (norm_density m s x))"
    and "\<And>x. lognorm_pdf env (PyNum s) (PyNum m) (PyNum x) =
           Inr (PyNum (lognorm_density s m x))"
  shows "call env (NormPrior (PyNum m) (PyNum s)) (mean (NormPrior (PyNum m) (PyNum s))) =
           Inr (PyNum (1 / (s * sqrt (2 * pi))))
       \<and> (\<forall>x. \<exists>v. call env (NormPrior (PyNum m) (PyNum s)) (PyNum x) = Inr (PyNum v)
                   \<and> v \<le> 1 / (s * sqrt (2 * pi)))
       \<and> (0 < m \<longrightarrow>
            call env (LognormPrior (PyNum m) (PyNum s))
                (mean (LognormPrior (PyNum m) (PyNum s))) =
              Inr (PyNum (1 / (s * m * sqrt (2 * pi))))
          \<and> call env (LognormPrior (PyNum m) (PyNum s)) (PyNum (m * exp (- s\<^sup>2))) =
              Inr (PyNum (exp (s\<^sup>2 / 2) / (s * m * sqrt (2 * pi))))
          \<and> 1 / (s * m * sqrt (2 * pi)) < exp (s\<^sup>2 / 2) / (s * m * sqrt (2 * pi)))
       \<and> call env (FunctionPrior n a b f l) (mean (FunctionPrior n a b f l)) = f a a b
       \<and> call env (GaussPrior env a b) (mean (GaussPrior env a b)) = gauss env a a b
       \<and> call env (LGaussPrior env a b) (mean (LGaussPrior env a b)) = lgauss env a a b None
       \<and> call env (LGaussLikePrior env a b) (mean (LGaussLikePrior env a b)) =
           lgauss env a a b None
       \<and> call env (LGaussLogPrior env a b) (mean (LGaussLogPrior env a b)) =
           lgauss env a a b (Some True)"
proof -
  have n1: "call env (NormPrior (PyNum m) (PyNum s)) (mean (NormPrior (PyNum m) (PyNum s))) =
           Inr (PyNum (1 / (s * sqrt (2 * pi))))"
    by (simp add: assms(2) norm_density_at_loc)
  have n2: "\<forall>x. \<exists>v. call env (NormPrior (PyNum m) (PyNum s)) (PyNum x) = Inr (PyNum v)
                   \<and> v \<le> 1 / (s * sqrt (2 * pi))"
    by (simp add: assms(2) norm_density_le_peak [OF assms(1)])
  have l: "call env (LognormPrior (PyNum m) (PyNum s))
                (mean (LognormPrior (PyNum m) (PyNum s))) =
              Inr (PyNum (1 / (s * m * sqrt (2 * pi))))
          \<and> call env (LognormPrior (PyNum m) (PyNum s)) (PyNum (m * exp (- s\<^sup>2))) =
              Inr (PyNum (exp (s\<^sup>2 / 2) / (s * m * sqrt (2 * pi))))
          \<and> 1 / (s * m * sqrt (2 * pi)) < exp (s\<^sup>2 / 2) / (s * m * sqrt (2 * pi))"
    if "0 < m"
    using lognorm_density_at_scale [OF that, of s] lognorm_density_at_mode [OF that assms(1)]
      lognorm_peak_above_scale [OF that assms(1)]
    by (simp add: assms(3))
  have f: "call env (FunctionPrior n a b f l) (mean (FunctionPrior n a b f l)) = f a a b
       \<and> call env (GaussPrior env a b) (mean (GaussPrior env a b)) = gauss env a a b
       \<and> call env (LGaussPrior env a b) (mean (LGaussPrior env a b)) = lgauss env a a b None
       \<and> call env (LGaussLikePrior env a b) (mean (LGaussLikePrior env a b)) =
           lgauss env a a b None
       \<and> call env (LGaussLogPrior env a b) (mean (LGaussLogPrior env a b)) =
           lgauss env a a b (Some True)"
    by (simp add: GaussPrior_def LGaussPrior_def LGaussLikePrior_def LGaussLogPrior_def)
  from n1 n2 l f show ?thesis by blast
qed

theorem value_at_mean_witness:
  "call example_env (NormPrior (PyNum 2) (PyNum 1)) (mean (NormPrior (PyNum 2) (PyNum 1))) =
     Inr (PyNum (1 / sqrt (2 * pi)))
   \<and> call example_env (LognormPrior (PyNum 2) (PyNum 1))
        (mean (LognormPrior (PyNum 2) (PyNum 1))) =
     Inr (PyNum (1 / (2 * sqrt (2 * pi))))
   \<and> call example_env (GaussPrior example_env (PyNum 2) (PyNum 1))
        (mean (GaussPrior example_env (PyNum 2) (PyNum 1))) =
     Inr (PyNum 2)"
proof -
  have s: "(0::real) < 1" by simp
  have n: "norm_pdf example_env (PyNum 2) (PyNum 1) (PyNum x) =
             Inr (PyNum (norm_density 2 1 x))" for x
    by (simp add: example_env_def)
  have l: "lognorm_pdf example_env (PyNum 1) (PyNum 2) (PyNum x) =
             Inr (PyNum (lognorm_density 1 2 x))" for x
    by (simp add: example_env_def)
  note t = value_at_mean [of 1 example_env 2, OF s n l]
  have g: "gauss example_env (PyNum 2) (PyNum 2) (PyNum 1) = Inr (PyNum 2)"
    by (simp add: example_env_def)
  have 1: "call example_env (NormPrior (PyNum 2) (PyNum 1))
             (mean (NormPrior (PyNum 2) (PyNum 1))) = Inr (PyNum (1 / sqrt (2 * pi)))"
    using t [THEN conjunct1] by simp
  have 2: "call example_env (LognormPrior (PyNum 2) (PyNum 1))
        (mean (LognormPrior (PyNum 2) (PyNum 1))) = Inr (PyNum (1 / (2 * sqrt (2 * pi))))"
    using t [THEN conjunct2, THEN conjunct2, THEN conjunct1] by simp
  have 3: "call example_env (GaussPrior example_env (PyNum 2) (PyNum 1))
        (mean (GaussPrior example_env (PyNum 2) (PyNum 1))) = Inr (PyNum 2)"
    using t [of _ "PyNum 2" "PyNum 1", THEN conjunct2, THEN conjunct2, THEN conjunct2,
        THEN conjunct2, THEN conjunct1] g
    by simp
  show ?thesis using 1 2 3 by simp
qed

text \<open>
  C6, as stated: for every prior instance no operation modifies the stored
  parameters, and two calls with the same \<open>x\<close> return the same value. It fails
  for a \<^verbatim>\<open>FunctionPrior\<close> whose stored callable writes to the instance: with
  \<^verbatim>\<open>def fn(x, mu, sigma): p._mu = x; return mu\<close> and \<^verbatim>\<open>mu\<close> 1, the first call
  at 7 returns 1 and sets \<^verbatim>\<open>_mu\<close> to 7, the second call at 7 returns 7, and
  \<^verbatim>\<open>mean()\<close> is 1 before the calls and 7 after them.
\<close>

theorem stored_callable_overwrites_mu:
  "run_m overwriting_program example_env
       [M_mean, M_call (PyNum 7), M_call (PyNum 7), M_mean] example_world =
     (\<lparr>this = IFunctionPrior (PyStr ''f'') (PyNum 7) (PyNum 1) 0 None, elsewhere = PyNone\<rparr>,
      [Inr (PyNum 1), Inr (PyNum 1), Inr (PyNum 7), Inr (PyNum 7)])"
  by (simp add: overwriting_program_def example_world_def call_m_def mean_m_def)

lemma invoke_m_frame:
  assumes "\<And>g x m s. g \<in> set (stored_callables (this w)) \<Longrightarrow> fst (callables prog g x m s w) = w"
  shows "fst (invoke_m prog env c w) = w"
proof (cases c)
  case M_funcname
  then show ?thesis by (simp add: funcname_m_def)
next
  case M_mean
  then show ?thesis by (simp add: mean_m_def)
next
  case M_sigma
  then show ?thesis by (simp add: sigma_m_def)
next
  case M_normalization
  then show ?thesis
    by (cases "this w")
      (simp_all add: normalization_m_def bind_w_def return_w_def normalization_range_m_def
        lookup_global_def module_globals_def)
next
  case M_normalization_range
  then show ?thesis by (simp add: bind_w_def return_w_def normalization_range_m_def)
next
  case M_marginalization_bins
  then show ?thesis by (simp add: marginalization_bins_m_def bind_w_def return_w_def mean_m_def)
next
  case M_profile_bins
  then show ?thesis
    by (simp add: profile_bins_m_def bind_w_def return_w_def mean_m_def sigma_m_def
        split: sum.splits)
next
  case (M_log_value x)
  show ?thesis
  proof (cases "this w")
    case (IFunctionPrior n m s f l)
    show ?thesis
    proof (cases l)
      case None
      have "fst (callables prog f x m s w) = w"
        using assms [of f] IFunctionPrior by simp
      then show ?thesis using M_log_value IFunctionPrior None
        by (cases "callables prog f x m s w")
          (simp add: log_value_m_def bind_w_def return_w_def split: sum.splits)
    next
      case (Some g)
      have "fst (callables prog g x m s w) = w"
        using assms [of g] IFunctionPrior Some by simp
      then show ?thesis using M_log_value IFunctionPrior Some
        by (simp add: log_value_m_def)
    qed
  next
    case (ILognormPrior n m s)
    then show ?thesis using M_log_value
      by (simp add: log_value_m_def call_m_def bind_w_def return_w_def split: sum.splits)
  next
    case (INormPrior n m s)
    then show ?thesis using M_log_value
      by (simp add: log_value_m_def call_m_def bind_w_def return_w_def split: sum.splits)
  next
    case (IFileFuncPrior n ff)
    then show ?thesis using M_log_value
      by (simp add: log_value_m_def call_m_def bind_w_def return_w_def split: sum.splits)
  qed
next
  case (M_call x)
  show ?thesis
  proof (cases "this w")
    case (IFunctionPrior n m s f l)
    have "fst (callables prog f x m s w) = w"
      using assms [of f] IFunctionPrior by simp
    then show ?thesis using M_call IFunctionPrior by (simp add: call_m_def)
  next
    case (ILognormPrior n m s)
    then show ?thesis using M_call by (simp add: call_m_def)
  next
    case (INormPrior n m s)
    then show ?thesis using M_call by (simp add: call_m_def)
  next
    case (IFileFuncPrior n ff)
    then show ?thesis using M_call by (simp add: call_m_def)
  qed
qed

text \<open>
  C6, amended. No method of the classes assigns to an attribute: for every
  instance, in every program state in which the callables the instance stores
  (\<^verbatim>\<open>_fn\<close> and \<^verbatim>\<open>_lnfn\<close> of a \<^verbatim>\<open>FunctionPrior\<close>; the other classes store none)
  leave the state as it is, every sequence of calls of the methods leaves the
  state, and with it \<^verbatim>\<open>_funcname\<close>, \<^verbatim>\<open>_mu\<close>, \<^verbatim>\<open>_sigma\<close> and the table of a
  \<^verbatim>\<open>FileFuncPrior\<close>, as it is, and each call returns what the same call returns
  on the fresh instance, so that two calls with the same \<open>x\<close> return the same
  value.
\<close>

theorem methods_leave_state_unchanged:
  assumes "\<And>g x m s. g \<in> set (stored_callables (this w)) \<Longrightarrow> fst (callables prog g x m s w) = w"
  shows "fst (run_m prog env cs w) = w
       \<and> snd (run_m prog env cs w) = map (\<lambda>c. snd (invoke_m prog env c w)) cs"
proof (induction cs)
  case Nil
  show ?case by simp
next
  case (Cons c cs)
  obtain r where i: "invoke_m prog env c w = (w, r)"
    using invoke_m_frame [of w prog env c] assms by (cases "invoke_m prog env c w") simp
  obtain rs where r: "run_m prog env cs w = (w, rs)"
    using Cons by (cases "run_m prog env cs w") simp
  show ?case using Cons i r by simp
qed

theorem methods_leave_state_unchanged_witness:
  "run_m returning_program example_env
       [M_call (PyNum 7), M_mean, M_call (PyNum 7), M_log_value (PyNum 3)] example_world =
     (example_world, [Inr (PyNum 7), Inr (PyNum 1), Inr (PyNum 7), Inr (PyNum 3)])"
proof -
  let ?cs = "[M_call (PyNum 7), M_mean, M_call (PyNum 7), M_log_value (PyNum 3)]"
  have h: "fst (callables returning_program g x m s example_world) = example_world"
    for g x m s
    by (simp add: returning_program_def)
  note t = methods_leave_state_unchanged [of example_world returning_program example_env ?cs, OF h]
  have r: "map (\<lambda>c. snd (invoke_m returning_program example_env c example_world)) ?cs =
             [Inr (PyNum 7), Inr (PyNum 1), Inr (PyNum 7), Inr (PyNum 3)]"
    by (simp add: returning_program_def example_world_def example_env_def call_m_def
        mean_m_def log_value_m_def bind_w_def return_w_def)
  from t r show ?thesis
    by (cases "run_m returning_program example_env ?cs example_world") simp
qed

text \<open>
  An instance whose callables are functions of their arguments is such an instance,
  and on it the methods in the state return what the methods of the previous
  sections return.
\<close>

lemma pure_callables_frame:
  "fst (callables (program_of env p) g x m s w) = w"
  by (cases p) (simp_all add: program_of_def lift_def split: option.splits)

lemma methods_on_pure_callables:
  "funcname_m (world_of p r) = (world_of p r, Inr (funcname p))
   \<and> mean_m (world_of p r) = (world_of p r, Inr (mean p))
   \<and> sigma_m (world_of p r) = (world_of p r, Inr (sigma p))
   \<and> call_m (program_of env p) env x (world_of p r) = (world_of p r, call env p x)
   \<and> log_value_m (program_of env p) env x (world_of p r) =
       (world_of p r, log_value env p x)
   \<and> normalization_m (program_of env p) env (world_of p r) =
       (world_of p r, normalization env p)
   \<and> marginalization_bins_m env (world_of p r) =
       (world_of p r, marginalization_bins env p)
   \<and> profile_bins_m env (world_of p r) = (world_of p r, profile_bins env p)"
  by (cases p)
    (auto simp: world_of_def funcname_m_def mean_m_def sigma_m_def call_m_def log_value_m_def
      normalization_m_def marginalization_bins_m_def profile_bins_m_def program_of_def
      lift_def bind_w_def return_w_def bind_def normalization_range_m_def
      normalization_range_def marginalization_bins_def profile_bins_def lookup_global_def
      module_globals_def split: option.splits sum.splits)

end
